theory Spec2Isabelle
  imports Main "HOL-Library.Sublist"
begin

section \<open>Values: parsed JSON as Python sees it\<close>

text \<open>
  The handlers of \<^verbatim>\<open>server.py\<close> work on what \<^verbatim>\<open>response.json()\<close> returns: Python
  values built from \<^verbatim>\<open>None\<close>, booleans, integers, strings, lists and dicts. A dict is
  kept as the list of its items in insertion order; a lookup reads the first entry of a
  key (the keys of a real dict are distinct). A string is kept as the list of the bytes
  of its UTF-8 encoding, so that a character beyond ASCII is two to four bytes.
  Numbers with a fraction or an exponent (Python floats) are outside this model.
\<close>

datatype json =
    JNull
  | JBool bool
  | JInt int
  | JStr string
  | JArr "json list"
  | JObj "(string \<times> json) list"

text \<open>The exceptions a handler can end with.\<close>

datatype error =
    HTTPStatusError nat   \<comment> \<open>\<^verbatim>\<open>raise_for_status\<close>, with the status code\<close>
  | RequestError          \<comment> \<open>the transport failed (connection, timeout)\<close>
  | JSONDecodeError       \<comment> \<open>\<^verbatim>\<open>response.json()\<close> on a body that is not JSON\<close>
  | AttributeError        \<comment> \<open>a method (\<^verbatim>\<open>.get\<close>, \<^verbatim>\<open>.lower\<close>) the value does not have\<close>
  | TypeError             \<comment> \<open>slicing, iterating or concatenating a value that cannot be\<close>

definition bind_err :: "error + 'a \<Rightarrow> ('a \<Rightarrow> error + 'b) \<Rightarrow> error + 'b" where
  "bind_err r f = (case r of Inl e \<Rightarrow> Inl e | Inr x \<Rightarrow> f x)"

subsection \<open>Python's built-in operations on these values\<close>

text \<open>Truth value testing, as \<^verbatim>\<open>if x:\<close> and \<^verbatim>\<open>not x\<close> do it.\<close>

fun truthy :: "json \<Rightarrow> bool" where
  "truthy JNull = False"
| "truthy (JBool b) = b"
| "truthy (JInt i) = (i \<noteq> 0)"
| "truthy (JStr s) = (s \<noteq> [])"
| "truthy (JArr xs) = (xs \<noteq> [])"
| "truthy (JObj kvs) = (kvs \<noteq> [])"

text \<open>\<^verbatim>\<open>d.get(key, default)\<close>: only a dict has the method.\<close>

fun py_get :: "json \<Rightarrow> string \<Rightarrow> json \<Rightarrow> error + json" where
  "py_get (JObj kvs) k d = Inr (case map_of kvs k of None \<Rightarrow> d | Some v \<Rightarrow> v)"
| "py_get _ k d = Inl AttributeError"

text \<open>
  \<^verbatim>\<open>s.lower()\<close>: only a string has the method. What it returns for a non-empty string
  is decided by Python's tables of Unicode characters, and not character by character (a
  capital sigma at the end of a word becomes the final sigma); that function is the
  parameter \<open>lower\<close> of everything that lowers a string. The empty string lowers to
  itself.
\<close>

type_synonym lowering = "string \<Rightarrow> string"

definition str_lower :: "lowering \<Rightarrow> string \<Rightarrow> string" where
  "str_lower lower s = (if s = [] then [] else lower s)"

fun py_lower :: "lowering \<Rightarrow> json \<Rightarrow> error + string" where
  "py_lower lower (JStr s) = Inr (str_lower lower s)"
| "py_lower lower _ = Inl AttributeError"

text \<open>\<^verbatim>\<open>a in b\<close> on two strings: \<^verbatim>\<open>a\<close> occurs in \<^verbatim>\<open>b\<close> as a contiguous run (of
  characters, which is the same as of bytes: no encoded character is part of another).\<close>

fun str_in :: "string \<Rightarrow> string \<Rightarrow> bool" where
  "str_in a [] = (a = [])"
| "str_in a (c # cs) = (prefix a (c # cs) \<or> str_in a cs)"

text \<open>\<^verbatim>\<open>str(n)\<close> of an integer: decimal digits, a minus sign when negative.\<close>

definition digit_char :: "nat \<Rightarrow> char" where
  "digit_char d = char_of (48 + d)"

fun str_nat :: "nat \<Rightarrow> string" where
  "str_nat n = (if n < 10 then [digit_char n] else str_nat (n div 10) @ [digit_char (n mod 10)])"

declare str_nat.simps [simp del]

definition str_int :: "int \<Rightarrow> string" where
  "str_int i = (if i < 0 then CHR ''-'' # str_nat (nat (- i)) else str_nat (nat i))"

text \<open>
  \<^verbatim>\<open>repr(s)\<close> of a string: single quotes, unless the string has a single quote and no
  double quote; the quote, the backslash and the characters that are not printable
  escaped. Those are the control characters of ASCII and, of the characters up to
  U+00FF, U+0080 to U+00A0 and U+00AD (encoded as the byte 0xC2 and the byte of that
  value). Characters beyond U+00FF are copied; Python escapes those of them that its
  tables call not printable.
\<close>

definition hex_digit :: "nat \<Rightarrow> char" where
  "hex_digit d = (if d < 10 then char_of (48 + d) else char_of (87 + d))"

definition hex_escape :: "nat \<Rightarrow> string" where
  "hex_escape n = [CHR 0x5C, CHR ''x'', hex_digit (n div 16), hex_digit (n mod 16)]"

definition repr_char :: "char \<Rightarrow> char \<Rightarrow> string" where
  "repr_char q c =
     (let n = (of_char c :: nat) in
      if c = q \<or> c = CHR 0x5C then [CHR 0x5C, c]
      else if n = 9 then [CHR 0x5C, CHR ''t'']
      else if n = 10 then [CHR 0x5C, CHR ''n'']
      else if n = 13 then [CHR 0x5C, CHR ''r'']
      else if n < 32 \<or> n = 127 then hex_escape n
      else [c])"

fun repr_chars :: "char \<Rightarrow> string \<Rightarrow> string" where
  "repr_chars q [] = []"
| "repr_chars q [c] = repr_char q c"
| "repr_chars q (c # d # cs) =
     (if (of_char c :: nat) = 194 \<and> (128 \<le> (of_char d :: nat) \<and> (of_char d :: nat) \<le> 160
            \<or> (of_char d :: nat) = 173)
      then hex_escape (of_char d) @ repr_chars q cs
      else repr_char q c @ repr_chars q (d # cs))"

definition repr_str :: "string \<Rightarrow> string" where
  "repr_str s =
     (let q = (if CHR 0x27 \<in> set s \<and> CHR 0x22 \<notin> set s then CHR 0x22 else CHR 0x27)
      in q # repr_chars q s @ [q])"

text \<open>\<^verbatim>\<open>', '.join(parts)\<close>.\<close>

fun join_comma :: "string list \<Rightarrow> string" where
  "join_comma [] = []"
| "join_comma [p] = p"
| "join_comma (p # ps) = p @ '', '' @ join_comma ps"

text \<open>\<^verbatim>\<open>repr(x)\<close>, which \<^verbatim>\<open>str\<close> uses for the elements of a list or dict.\<close>

fun py_repr :: "json \<Rightarrow> string" where
  "py_repr JNull = ''None''"
| "py_repr (JBool b) = (if b then ''True'' else ''False'')"
| "py_repr (JInt i) = str_int i"
| "py_repr (JStr s) = repr_str s"
| "py_repr (JArr xs) = ''['' @ join_comma (map py_repr xs) @ '']''"
| "py_repr (JObj kvs) =
     ''{'' @ join_comma (map (\<lambda>kv. repr_str (fst kv) @ '': '' @ py_repr (snd kv)) kvs) @ ''}''"

text \<open>\<^verbatim>\<open>str(x)\<close>, which an f-string applies to each \<^verbatim>\<open>{x}\<close>: a string is itself,
  everything else is its \<^verbatim>\<open>repr\<close>.\<close>

fun py_str :: "json \<Rightarrow> string" where
  "py_str (JStr s) = s"
| "py_str v = py_repr v"

text \<open>The first \<open>n\<close> characters of a string: a byte from 0x80 to 0xBF continues the
  character begun before it.\<close>

fun take_characters :: "nat \<Rightarrow> string \<Rightarrow> string" where
  "take_characters n [] = []"
| "take_characters n (c # cs) =
     (if 128 \<le> (of_char c :: nat) \<and> (of_char c :: nat) < 192 then c # take_characters n cs
      else case n of 0 \<Rightarrow> [] | Suc m \<Rightarrow> c # take_characters m cs)"

text \<open>\<^verbatim>\<open>x[:10]\<close>: the first ten elements of a list or characters of a string; any other
  value cannot be sliced (a dict raises \<^verbatim>\<open>TypeError\<close> or, from Python 3.12 on,
  \<^verbatim>\<open>KeyError\<close>; the two are not told apart here).\<close>

fun slice10 :: "json \<Rightarrow> error + json" where
  "slice10 (JArr xs) = Inr (JArr (take 10 xs))"
| "slice10 (JStr s) = Inr (JStr (take_characters 10 s))"
| "slice10 _ = Inl TypeError"

text \<open>\<^verbatim>\<open>result += body\<close> with \<^verbatim>\<open>result\<close> a string: \<^verbatim>\<open>body\<close> must be a string too.\<close>

fun str_add :: "string \<Rightarrow> json \<Rightarrow> error + string" where
  "str_add result (JStr s) = Inr (result @ s)"
| "str_add result _ = Inl TypeError"

section \<open>The formatters\<close>

subsection \<open>\<^verbatim>\<open>format_articles\<close>\<close>

text \<open>One pass of the loop body: the text appended to \<^verbatim>\<open>result\<close> for one article.\<close>

definition format_article_block :: "json \<Rightarrow> error + string" where
  "format_article_block article =
     bind_err (py_get article ''title'' (JStr ''Untitled'')) (\<lambda>title.
     bind_err (py_get article ''user'' (JObj [])) (\<lambda>user.
     bind_err (py_get user ''name'' (JStr ''Unknown Author'')) (\<lambda>author.
     bind_err (py_get article ''readable_publish_date'' (JStr ''Unknown date'')) (\<lambda>published_date.
     bind_err (py_get article ''id'' (JStr [])) (\<lambda>article_id.
     bind_err (py_get article ''tags'' (JStr [])) (\<lambda>tags.
     bind_err (py_get article ''description'' (JStr ''No description available.'')) (\<lambda>description.
       Inr (''## '' @ py_str title @ ''\<newline>''
          @ ''ID: '' @ py_str article_id @ ''\<newline>''
          @ ''Author: '' @ py_str author @ ''\<newline>''
          @ ''Published: '' @ py_str published_date @ ''\<newline>''
          @ ''Tags: '' @ py_str tags @ ''\<newline>''
          @ ''Description: '' @ py_str description @ ''\<newline>\<newline>''))))))))"

text \<open>The \<^verbatim>\<open>for\<close> loop over a list: an exception in one pass ends it.\<close>

fun format_loop :: "string \<Rightarrow> json list \<Rightarrow> error + string" where
  "format_loop result [] = Inr result"
| "format_loop result (article # rest) =
     bind_err (format_article_block article) (\<lambda>block. format_loop (result @ block) rest)"

text \<open>
  \<^verbatim>\<open>format_articles\<close> is annotated to take a list and is called on the slice of the
  response. A falsy value gives the sentinel. A non-empty string or dict would be
  iterated over strings, which have no \<^verbatim>\<open>get\<close>; a true boolean or a non-zero integer
  cannot be iterated.
\<close>

definition format_articles :: "json \<Rightarrow> error + string" where
  "format_articles articles =
     (if \<not> truthy articles then Inr ''No articles found.''
      else case articles of
          JArr xs \<Rightarrow> format_loop ''# Dev.to Articles\<newline>\<newline>'' xs
        | JStr s \<Rightarrow> Inl AttributeError
        | JObj kvs \<Rightarrow> Inl AttributeError
        | _ \<Rightarrow> Inl TypeError)"

subsection \<open>\<^verbatim>\<open>format_article_details\<close>\<close>

definition format_article_details :: "json \<Rightarrow> error + string" where
  "format_article_details article =
     (if \<not> truthy article then Inr ''Article not found.''
      else
        bind_err (py_get article ''title'' (JStr ''Untitled'')) (\<lambda>title.
        bind_err (py_get article ''user'' (JObj [])) (\<lambda>user.
        bind_err (py_get user ''name'' (JStr ''Unknown Author'')) (\<lambda>author.
        bind_err (py_get article ''readable_publish_date'' (JStr ''Unknown date'')) (\<lambda>published_date.
        bind_err (py_get article ''body_markdown'' (JStr ''No content available.'')) (\<lambda>body.
        bind_err (py_get article ''tags'' (JStr [])) (\<lambda>tags.
          str_add (''# '' @ py_str title @ ''\<newline>\<newline>''
                 @ ''Author: '' @ py_str author @ ''\<newline>''
                 @ ''Published: '' @ py_str published_date @ ''\<newline>''
                 @ ''Tags: '' @ py_str tags @ ''\<newline>\<newline>''
                 @ ''## Content\<newline>\<newline>'') body)))))))"

subsection \<open>\<^verbatim>\<open>format_user_profile\<close>\<close>

text \<open>An optional line: appended when the field is truthy.\<close>

definition opt_line :: "string \<Rightarrow> json \<Rightarrow> string" where
  "opt_line label v = (if truthy v then label @ py_str v @ ''\<newline>'' else [])"

definition format_user_profile :: "json \<Rightarrow> error + string" where
  "format_user_profile user =
     (if \<not> truthy user then Inr ''User not found.''
      else
        bind_err (py_get user ''username'' (JStr ''Unknown'')) (\<lambda>username.
        bind_err (py_get user ''name'' (JStr ''Unknown'')) (\<lambda>name.
        bind_err (py_get user ''summary'' (JStr ''No bio available.'')) (\<lambda>bio.
        bind_err (py_get user ''twitter_username'' (JStr [])) (\<lambda>twitter.
        bind_err (py_get user ''github_username'' (JStr [])) (\<lambda>github.
        bind_err (py_get user ''website_url'' (JStr [])) (\<lambda>website.
        bind_err (py_get user ''location'' (JStr [])) (\<lambda>location.
        bind_err (py_get user ''joined_at'' (JStr [])) (\<lambda>joined.
          Inr (''# '' @ py_str name @ '' (@'' @ py_str username @ '')\<newline>\<newline>''
             @ ''Bio: '' @ py_str bio @ ''\<newline>\<newline>''
             @ ''## Details\<newline>''
             @ opt_line ''Location: '' location
             @ opt_line ''Member since: '' joined
             @ ''\<newline>## Links\<newline>''
             @ opt_line ''Twitter: @'' twitter
             @ opt_line ''GitHub: '' github
             @ opt_line ''Website: '' website))))))))))"

section \<open>The transport\<close>

text \<open>
  A request as \<^verbatim>\<open>httpx\<close> sends it: the method, the URL, the keyword arguments
  \<^verbatim>\<open>params\<close>, \<^verbatim>\<open>json\<close> and \<^verbatim>\<open>headers\<close> (\<open>None\<close> when the call does not pass
  one), and the timeout of 10.0 seconds.
\<close>

datatype http_method = GET | POST | PUT

record request =
  meth :: http_method
  url :: string
  params :: "(string \<times> json) list option"
  json_body :: "json option"
  headers :: "(string \<times> string) list option"
  timeout :: nat

text \<open>A response: its status code and its body as \<^verbatim>\<open>response.json()\<close> parses it
  (\<open>None\<close> when the body is not JSON).\<close>

record response =
  status_code :: nat
  body :: "json option"

text \<open>The remote API, as far as one handler call sees it: what each request it sends
  is answered with, or that the transport failed.\<close>

type_synonym transport = "request \<Rightarrow> error + response"

text \<open>\<^verbatim>\<open>response.raise_for_status()\<close> raises on a status that is not 2xx.\<close>

definition raise_for_status :: "response \<Rightarrow> error + unit" where
  "raise_for_status r =
     (if 200 \<le> status_code r \<and> status_code r < 300 then Inr ()
      else Inl (HTTPStatusError (status_code r)))"

definition response_json :: "response \<Rightarrow> error + json" where
  "response_json r = (case body r of None \<Rightarrow> Inl JSONDecodeError | Some j \<Rightarrow> Inr j)"

text \<open>
  A handler is a coroutine that sends requests and ends with a value or an exception.
  Its model returns the requests it sent, in order, and how it ended.
\<close>

type_synonym 'a io = "request list \<times> (error + 'a)"

definition done_with :: "error + 'a \<Rightarrow> 'a io" where
  "done_with r = ([], r)"

definition io_bind :: "'a io \<Rightarrow> ('a \<Rightarrow> 'b io) \<Rightarrow> 'b io" where
  "io_bind m f =
     (case snd m of
        Inl e \<Rightarrow> (fst m, Inl e)
      | Inr x \<Rightarrow> (fst m @ fst (f x), snd (f x)))"

text \<open>Sending one request and reading the JSON of a successful answer: the three lines
  every call site has after building its request.\<close>

definition send :: "transport \<Rightarrow> request \<Rightarrow> json io" where
  "send http r =
     ([r],
      bind_err (http r) (\<lambda>resp.
      bind_err (raise_for_status resp) (\<lambda>_.
        response_json resp)))"

definition BASE_URL :: string where
  "BASE_URL = ''https://dev.to/api''"

definition fetch_request :: "string \<Rightarrow> (string \<times> json) list option \<Rightarrow> request" where
  "fetch_request path ps =
     \<lparr>meth = GET, url = BASE_URL @ path, params = ps, json_body = None,
      headers = None, timeout = 10\<rparr>"

definition fetch_from_api :: "transport \<Rightarrow> string \<Rightarrow> (string \<times> json) list option \<Rightarrow> json io" where
  "fetch_from_api http path ps = send http (fetch_request path ps)"

section \<open>The handlers\<close>

subsection \<open>Article lists\<close>

definition get_latest_articles :: "transport \<Rightarrow> string io" where
  "get_latest_articles http =
     io_bind (fetch_from_api http ''/articles/latest'' None) (\<lambda>articles.
       done_with (bind_err (slice10 articles) format_articles))"

definition get_top_articles :: "transport \<Rightarrow> string io" where
  "get_top_articles http =
     io_bind (fetch_from_api http ''/articles'' None) (\<lambda>articles.
       done_with (bind_err (slice10 articles) format_articles))"

definition get_articles_by_tag :: "transport \<Rightarrow> string \<Rightarrow> string io" where
  "get_articles_by_tag http tag =
     io_bind (fetch_from_api http ''/articles'' (Some [(''tag'', JStr tag)])) (\<lambda>articles.
       done_with (bind_err (slice10 articles) format_articles))"

definition get_articles_by_username :: "transport \<Rightarrow> string \<Rightarrow> string io" where
  "get_articles_by_username http username =
     io_bind (fetch_from_api http ''/articles'' (Some [(''username'', JStr username)])) (\<lambda>articles.
       done_with (bind_err (slice10 articles) format_articles))"

subsection \<open>Single articles\<close>

definition get_article_by_id :: "transport \<Rightarrow> string \<Rightarrow> string io" where
  "get_article_by_id http ident =
     io_bind (fetch_from_api http (''/articles/'' @ ident) None) (\<lambda>article.
       done_with (format_article_details article))"

definition get_article_details :: "transport \<Rightarrow> int \<Rightarrow> string io" where
  "get_article_details http article_id =
     io_bind (fetch_from_api http (''/articles/'' @ str_int article_id) None) (\<lambda>article.
       done_with (format_article_details article))"

subsection \<open>\<^verbatim>\<open>search_articles\<close>\<close>

text \<open>
  The condition of the list comprehension. \<^verbatim>\<open>or\<close> evaluates its right operand only
  when the left one is false, so the description is not read when the title matches.
\<close>

definition article_matches :: "lowering \<Rightarrow> string \<Rightarrow> json \<Rightarrow> error + bool" where
  "article_matches lower query article =
     bind_err (py_get article ''title'' (JStr [])) (\<lambda>title.
     bind_err (py_lower lower title) (\<lambda>title_lower.
       if str_in (str_lower lower query) title_lower then Inr True
       else
         bind_err (py_get article ''description'' (JStr [])) (\<lambda>description.
         bind_err (py_lower lower description) (\<lambda>description_lower.
           Inr (str_in (str_lower lower query) description_lower)))))"

fun filter_loop :: "lowering \<Rightarrow> string \<Rightarrow> json list \<Rightarrow> error + json list" where
  "filter_loop lower query [] = Inr []"
| "filter_loop lower query (article # rest) =
     bind_err (article_matches lower query article) (\<lambda>keep.
     bind_err (filter_loop lower query rest) (\<lambda>kept.
       Inr (if keep then article # kept else kept)))"

text \<open>The comprehension iterates over the response: the elements of a list; an empty
  string or dict gives no element, a non-empty one gives strings, which have no
  \<^verbatim>\<open>get\<close>; any other value cannot be iterated.\<close>

definition filtered_articles :: "lowering \<Rightarrow> string \<Rightarrow> json \<Rightarrow> error + json list" where
  "filtered_articles lower query articles =
     (case articles of
        JArr xs \<Rightarrow> filter_loop lower query xs
      | JStr s \<Rightarrow> if s = [] then Inr [] else Inl AttributeError
      | JObj kvs \<Rightarrow> if kvs = [] then Inr [] else Inl AttributeError
      | _ \<Rightarrow> Inl TypeError)"

definition search_articles :: "transport \<Rightarrow> lowering \<Rightarrow> string \<Rightarrow> int \<Rightarrow> string io" where
  "search_articles http lower query page =
     io_bind (fetch_from_api http ''/articles'' (Some [(''page'', JInt page)])) (\<lambda>articles.
       done_with
         (bind_err (filtered_articles lower query articles) (\<lambda>filtered.
            format_articles (JArr (take 10 filtered)))))"

subsection \<open>\<^verbatim>\<open>get_user_info\<close>\<close>

text \<open>The \<^verbatim>\<open>try\<close> block, then the \<^verbatim>\<open>except httpx.HTTPStatusError\<close> clause applied to
  how the block ended.\<close>

definition get_user_info :: "transport \<Rightarrow> string \<Rightarrow> string io" where
  "get_user_info http username =
     (let attempt =
        io_bind (fetch_from_api http (''/users/'' @ username) None) (\<lambda>user.
          done_with (format_user_profile user))
      in case snd attempt of
           Inl (HTTPStatusError code) \<Rightarrow>
             if code = 404 then (fst attempt, Inr (''User '' @ username @ '' not found.''))
             else (fst attempt, Inl (HTTPStatusError code))
         | _ \<Rightarrow> attempt)"

subsection \<open>\<^verbatim>\<open>create_article\<close>\<close>

text \<open>\<^verbatim>\<open>os.getenv\<close> is the process environment: a variable is set to a string or not set,
  and then \<^verbatim>\<open>os.getenv\<close> returns \<^verbatim>\<open>None\<close>.\<close>

type_synonym environ = "string \<Rightarrow> string option"

definition create_article_data :: "string \<Rightarrow> string \<Rightarrow> string \<Rightarrow> bool \<Rightarrow> json" where
  "create_article_data title body_markdown tags published =
     JObj [(''article'',
            JObj [(''title'', JStr title),
                  (''body_markdown'', JStr body_markdown),
                  (''published'', JBool published),
                  (''tags'', JStr tags)])]"

text \<open>The \<^verbatim>\<open>headers\<close> argument of the call: the value of \<^verbatim>\<open>api-key\<close> is whatever
  \<^verbatim>\<open>os.getenv\<close> returned.\<close>

definition create_article_headers :: "environ \<Rightarrow> (string \<times> string option) list" where
  "create_article_headers getenv =
     [(''Content-Type'', Some ''application/json''),
      (''api-key'', getenv ''DEV_TO_API_KEY'')]"

text \<open>\<^verbatim>\<open>httpx\<close> builds the headers of a request before it sends anything, and refuses a
  header whose value is \<^verbatim>\<open>None\<close> with a \<^verbatim>\<open>TypeError\<close>.\<close>

fun header_values :: "(string \<times> string option) list \<Rightarrow> error + (string \<times> string) list" where
  "header_values [] = Inr []"
| "header_values ((k, None) # rest) = Inl TypeError"
| "header_values ((k, Some v) # rest) =
     bind_err (header_values rest) (\<lambda>values. Inr ((k, v) # values))"

definition create_article_request ::
    "(string \<times> string) list \<Rightarrow> string \<Rightarrow> string \<Rightarrow> string \<Rightarrow> bool \<Rightarrow> request" where
  "create_article_request hs title body_markdown tags published =
     \<lparr>meth = POST, url = BASE_URL @ ''/articles'', params = None,
      json_body = Some (create_article_data title body_markdown tags published),
      headers = Some hs, timeout = 10\<rparr>"

definition create_article ::
    "transport \<Rightarrow> environ \<Rightarrow> string \<Rightarrow> string \<Rightarrow> string \<Rightarrow> bool \<Rightarrow> string io" where
  "create_article http getenv title body_markdown tags published =
     (case header_values (create_article_headers getenv) of
        Inl e \<Rightarrow> ([], Inl e)
      | Inr hs \<Rightarrow>
          io_bind (send http (create_article_request hs title body_markdown tags published))
            (\<lambda>article.
               done_with
                 (bind_err (py_get article ''id'' JNull) (\<lambda>ident.
                  bind_err (py_get article ''url'' JNull) (\<lambda>link.
                    Inr (''Article created successfully with ID: '' @ py_str ident
                         @ ''\<newline>URL: '' @ py_str link))))))"

subsection \<open>\<^verbatim>\<open>update_article\<close>\<close>

text \<open>The four \<^verbatim>\<open>if ... is not None\<close> statements, each adding one key to the inner dict.\<close>

definition update_fields ::
    "string option \<Rightarrow> string option \<Rightarrow> string option \<Rightarrow> bool option \<Rightarrow> (string \<times> json) list" where
  "update_fields title body_markdown tags published =
     (case title of None \<Rightarrow> [] | Some t \<Rightarrow> [(''title'', JStr t)])
     @ (case body_markdown of None \<Rightarrow> [] | Some b \<Rightarrow> [(''body_markdown'', JStr b)])
     @ (case tags of None \<Rightarrow> [] | Some g \<Rightarrow> [(''tags'', JStr g)])
     @ (case published of None \<Rightarrow> [] | Some p \<Rightarrow> [(''published'', JBool p)])"

definition update_data ::
    "string option \<Rightarrow> string option \<Rightarrow> string option \<Rightarrow> bool option \<Rightarrow> json" where
  "update_data title body_markdown tags published =
     JObj [(''article'', JObj (update_fields title body_markdown tags published))]"

definition update_article_request ::
    "int \<Rightarrow> string option \<Rightarrow> string option \<Rightarrow> string option \<Rightarrow> bool option \<Rightarrow> request" where
  "update_article_request article_id title body_markdown tags published =
     \<lparr>meth = PUT, url = BASE_URL @ ''/articles/'' @ str_int article_id, params = None,
      json_body = Some (update_data title body_markdown tags published),
      headers = None, timeout = 10\<rparr>"

definition update_article ::
    "transport \<Rightarrow> int \<Rightarrow> string option \<Rightarrow> string option \<Rightarrow> string option \<Rightarrow> bool option
       \<Rightarrow> string io" where
  "update_article http article_id title body_markdown tags published =
     io_bind (fetch_from_api http (''/articles/'' @ str_int article_id) None) (\<lambda>article.
     io_bind (send http (update_article_request article_id title body_markdown tags published))
       (\<lambda>updated_article.
          done_with
            (bind_err (py_get updated_article ''url'' JNull) (\<lambda>link.
               Inr (''Article updated successfully\<newline>URL: '' @ py_str link)))))"

section \<open>Fixtures and observations\<close>

text \<open>A transport that answers every request with status 200 and the given JSON, and
  one that answers every request with the given status and a body that is not JSON.\<close>

definition reply :: "json \<Rightarrow> transport" where
  "reply j = (\<lambda>r. Inr \<lparr>status_code = 200, body = Some j\<rparr>)"

definition reply_status :: "nat \<Rightarrow> transport" where
  "reply_status code = (\<lambda>r. Inr \<lparr>status_code = code, body = None\<rparr>)"

text \<open>A transport that answers a GET with status 200 and the given JSON, and every other
  request with the given status.\<close>

definition reply_to_get :: "json \<Rightarrow> nat \<Rightarrow> transport" where
  "reply_to_get j code =
     (\<lambda>r. if meth r = GET then Inr \<lparr>status_code = 200, body = Some j\<rparr>
          else Inr \<lparr>status_code = code, body = None\<rparr>)"

text \<open>The lines of a text, as \<^verbatim>\<open>text.split('\n')\<close> gives them.\<close>

fun split_lines :: "string \<Rightarrow> string list" where
  "split_lines [] = [[]]"
| "split_lines (c # cs) =
     (if c = CHR ''\<newline>'' then [] # split_lines cs
      else case split_lines cs of [] \<Rightarrow> [[c]] | l # ls \<Rightarrow> (c # l) # ls)"

definition one_line :: "string \<Rightarrow> bool" where
  "one_line s = (CHR ''\<newline>'' \<notin> set s)"

text \<open>The text made of the given lines, each ended by a line break.\<close>

definition unlines :: "string list \<Rightarrow> string" where
  "unlines ls = concat (map (\<lambda>l. l @ ''\<newline>'') ls)"

text \<open>The number of level-two headings of a text: its lines that start with \<^verbatim>\<open>## \<close>.\<close>

definition heading_count :: "string \<Rightarrow> nat" where
  "heading_count text = length (filter (prefix ''## '') (split_lines text))"

text \<open>Some line of the text starts with the given label.\<close>

definition has_line :: "string \<Rightarrow> string \<Rightarrow> bool" where
  "has_line label text = list_ex (prefix label) (split_lines text)"

section \<open>Articles and what the search looks for\<close>

text \<open>A field of an object holds text when it is missing or holds a string.\<close>

definition field_is_text :: "(string \<times> json) list \<Rightarrow> string \<Rightarrow> bool" where
  "field_is_text kvs k = (case map_of kvs k of None \<Rightarrow> True | Some (JStr s) \<Rightarrow> True | Some _ \<Rightarrow> False)"


text \<open>An object whose title holds text.\<close>

fun title_is_text :: "json \<Rightarrow> bool" where
  "title_is_text (JObj kvs) = field_is_text kvs ''title''"
| "title_is_text _ = False"




text \<open>
  \<^verbatim>\<open>str.lower\<close> on the texts of the examples. On ASCII text it maps the letters A to Z.
  The capital sigma alone lowers to the small sigma. In the Greek word for "street"
  written in capitals (omicron, delta, omicron, sigma) the capital sigma at the end
  becomes the final sigma. The four Greek texts are given by their UTF-8 bytes.
\<close>

definition capital_sigma :: string where
  "capital_sigma = [CHR 0xCE, CHR 0xA3]"

definition small_sigma :: string where
  "small_sigma = [CHR 0xCF, CHR 0x83]"

definition street_capitals :: string where
  "street_capitals = [CHR 0xCE, CHR 0x9F, CHR 0xCE, CHR 0x94, CHR 0xCE, CHR 0x9F, CHR 0xCE, CHR 0xA3]"

definition street_small :: string where
  "street_small = [CHR 0xCE, CHR 0xBF, CHR 0xCE, CHR 0xB4, CHR 0xCE, CHR 0xBF, CHR 0xCF, CHR 0x82]"

definition ascii_lower_char :: "char \<Rightarrow> char" where
  "ascii_lower_char c =
     (let n = (of_char c :: nat) in if 65 \<le> n \<and> n \<le> 90 then char_of (n + 32) else c)"

definition example_lower :: lowering where
  "example_lower s =
     (if s = capital_sigma then small_sigma
      else if s = street_capitals then street_small
      else map ascii_lower_char s)"

text \<open>A page of three articles: one with a title only, one with a description only,
  one with neither.\<close>

definition sample_page :: "json list" where
  "sample_page =
     [JObj [(''title'', JStr ''Hello PYTHON'')],
      JObj [(''description'', JStr ''rust'')],
      JObj []]"

section \<open>The texts the formatters are documented to produce\<close>

text \<open>What an f-string shows for \<^verbatim>\<open>d.get(k, default)\<close>: the \<^verbatim>\<open>str\<close> of the value
  stored under the key, or the default text when the key is missing.\<close>

definition shown :: "(string \<times> json) list \<Rightarrow> string \<Rightarrow> string \<Rightarrow> string" where
  "shown kvs k dflt = (case map_of kvs k of None \<Rightarrow> dflt | Some v \<Rightarrow> py_str v)"

text \<open>The \<^verbatim>\<open>user\<close> of an article is missing or an object; the author shown is the
  \<^verbatim>\<open>name\<close> of that object.\<close>

definition user_is_object :: "(string \<times> json) list \<Rightarrow> bool" where
  "user_is_object kvs =
     (case map_of kvs ''user'' of None \<Rightarrow> True | Some (JObj u) \<Rightarrow> True | Some _ \<Rightarrow> False)"

definition author_shown :: "(string \<times> json) list \<Rightarrow> string" where
  "author_shown kvs =
     (case map_of kvs ''user'' of
        Some (JObj u) \<Rightarrow> shown u ''name'' ''Unknown Author''
      | _ \<Rightarrow> ''Unknown Author'')"

fun is_article :: "json \<Rightarrow> bool" where
  "is_article (JObj kvs) = user_is_object kvs"
| "is_article _ = False"

fun fields_of :: "json \<Rightarrow> (string \<times> json) list" where
  "fields_of (JObj kvs) = kvs"
| "fields_of _ = []"

text \<open>The block of one article in a list: the heading with the title, then the five
  labelled lines in their order, then an empty line.\<close>

definition article_lines :: "(string \<times> json) list \<Rightarrow> string list" where
  "article_lines kvs =
     [''## '' @ shown kvs ''title'' ''Untitled'',
      ''ID: '' @ shown kvs ''id'' [],
      ''Author: '' @ author_shown kvs,
      ''Published: '' @ shown kvs ''readable_publish_date'' ''Unknown date'',
      ''Tags: '' @ shown kvs ''tags'' [],
      ''Description: '' @ shown kvs ''description'' ''No description available.'',
      []]"

definition article_block :: "(string \<times> json) list \<Rightarrow> string" where
  "article_block kvs = unlines (article_lines kvs)"

text \<open>The text of a list of articles: the title line, an empty line, then the block of
  each article in the order of the list.\<close>

definition articles_text :: "json list \<Rightarrow> string" where
  "articles_text xs =
     unlines [''# Dev.to Articles'', []] @ concat (map (\<lambda>a. article_block (fields_of a)) xs)"

text \<open>The text of one article with its body.\<close>

definition details_text :: "(string \<times> json) list \<Rightarrow> string" where
  "details_text kvs =
     unlines
       [''# '' @ shown kvs ''title'' ''Untitled'',
        [],
        ''Author: '' @ author_shown kvs,
        ''Published: '' @ shown kvs ''readable_publish_date'' ''Unknown date'',
        ''Tags: '' @ shown kvs ''tags'' [],
        [],
        ''## Content'',
        []]
     @ shown kvs ''body_markdown'' ''No content available.''"

text \<open>A field is present with a truthy value.\<close>

definition field_truthy :: "(string \<times> json) list \<Rightarrow> string \<Rightarrow> bool" where
  "field_truthy kvs k = (case map_of kvs k of None \<Rightarrow> False | Some v \<Rightarrow> truthy v)"

text \<open>The line of an optional field of a profile: there when the field is present
  with a truthy value.\<close>

definition optional_line :: "string \<Rightarrow> (string \<times> json) list \<Rightarrow> string \<Rightarrow> string list" where
  "optional_line label kvs k = (if field_truthy kvs k then [label @ shown kvs k []] else [])"

text \<open>The lines of a user profile, and its text.\<close>

definition profile_lines :: "(string \<times> json) list \<Rightarrow> string list" where
  "profile_lines kvs =
     [''# '' @ shown kvs ''name'' ''Unknown'' @ '' (@'' @ shown kvs ''username'' ''Unknown'' @ '')'',
      [],
      ''Bio: '' @ shown kvs ''summary'' ''No bio available.'',
      [],
      ''## Details'']
     @ optional_line ''Location: '' kvs ''location''
     @ optional_line ''Member since: '' kvs ''joined_at''
     @ [[], ''## Links'']
     @ optional_line ''Twitter: @'' kvs ''twitter_username''
     @ optional_line ''GitHub: '' kvs ''github_username''
     @ optional_line ''Website: '' kvs ''website_url''"

definition profile_text :: "(string \<times> json) list \<Rightarrow> string" where
  "profile_text kvs = unlines (profile_lines kvs)"

text \<open>The lines of a text after its first line, and that none of them starts with a
  given label.\<close>

definition continuation_lines :: "string \<Rightarrow> string list" where
  "continuation_lines t = tl (split_lines t)"

definition no_line_inside :: "string \<Rightarrow> string \<Rightarrow> bool" where
  "no_line_inside label t = (filter (prefix label) (continuation_lines t) = [])"

text \<open>An article none of whose shown texts carries a heading of its own: no line of the
  title, identifier, author name, date, tags or description after the first starts with
  \<^verbatim>\<open>## \<close>.\<close>

fun no_inner_heading :: "json \<Rightarrow> bool" where
  "no_inner_heading (JObj kvs) =
     (user_is_object kvs
      \<and> list_all (no_line_inside ''## '')
          [shown kvs ''title'' ''Untitled'',
           shown kvs ''id'' [],
           author_shown kvs,
           shown kvs ''readable_publish_date'' ''Unknown date'',
           shown kvs ''tags'' [],
           shown kvs ''description'' ''No description available.''])"
| "no_inner_heading _ = False"

text \<open>The texts a profile shows, and that no line of them after the first starts with a
  given label.\<close>

definition profile_texts :: "(string \<times> json) list \<Rightarrow> string list" where
  "profile_texts kvs =
     [shown kvs ''name'' ''Unknown'',
      shown kvs ''username'' ''Unknown'',
      shown kvs ''summary'' ''No bio available.'',
      shown kvs ''location'' [],
      shown kvs ''joined_at'' [],
      shown kvs ''twitter_username'' [],
      shown kvs ''github_username'' [],
      shown kvs ''website_url'' []]"

definition label_not_inside :: "string \<Rightarrow> (string \<times> json) list \<Rightarrow> bool" where
  "label_not_inside label kvs = list_all (no_line_inside label) (profile_texts kvs)"

text \<open>A handler ended with a text that has one heading for each of the given articles.\<close>

definition one_heading_each :: "json list \<Rightarrow> error + string \<Rightarrow> bool" where
  "one_heading_each articles r =
     (case r of Inl e \<Rightarrow> False | Inr text \<Rightarrow> heading_count text = length articles)"

text \<open>A user with a name, a summary of two lines and a location; the Twitter name is
  \<^verbatim>\<open>None\<close> and the GitHub name is empty.\<close>

definition sample_user :: "(string \<times> json) list" where
  "sample_user =
     [(''name'', JStr ''Ada''),
      (''summary'', JStr ''one\<newline>two''),
      (''location'', JStr ''London''),
      (''twitter_username'', JNull),
      (''github_username'', JStr [])]"

text \<open>A user with all five optional fields.\<close>

definition full_user :: "(string \<times> json) list" where
  "full_user =
     [(''username'', JStr ''ada''),
      (''location'', JStr ''London''),
      (''joined_at'', JStr ''Jan 1, 2020''),
      (''twitter_username'', JStr ''ada_t''),
      (''github_username'', JStr ''ada_g''),
      (''website_url'', JStr ''https://ada.dev'')]"

section \<open>Basic facts\<close>

lemma bind_err_Inl [simp]: "bind_err (Inl e) f = Inl e"
  by (simp add: bind_err_def)

lemma bind_err_Inr [simp]: "bind_err (Inr x) f = f x"
  by (simp add: bind_err_def)

lemma snd_io_bind: "snd (io_bind m f) = bind_err (snd m) (\<lambda>x. snd (f x))"
  by (simp add: io_bind_def bind_err_def split: sum.splits)

lemma fst_io_bind:
  "fst (io_bind m f) = fst m @ (case snd m of Inl e \<Rightarrow> [] | Inr x \<Rightarrow> fst (f x))"
  by (simp add: io_bind_def split: sum.splits)

lemma done_with_simps [simp]: "fst (done_with r) = []" "snd (done_with r) = r"
  by (simp_all add: done_with_def)

lemma fst_send [simp]: "fst (send http r) = [r]"
  by (simp add: send_def)

lemma fst_fetch_from_api [simp]: "fst (fetch_from_api http path ps) = [fetch_request path ps]"
  by (simp add: fetch_from_api_def)

lemma send_reply [simp]: "snd (send (reply j) r) = Inr j"
  by (simp add: send_def reply_def raise_for_status_def response_json_def)

lemma send_reply_status [simp]:
  "snd (send (reply_status code) r) =
     (if 200 \<le> code \<and> code < 300 then Inl JSONDecodeError else Inl (HTTPStatusError code))"
  by (simp add: send_def reply_status_def raise_for_status_def response_json_def)

lemma split_lines_not_Nil [simp]: "split_lines s \<noteq> []"
  by (cases s) (simp_all split: list.splits)

lemma split_lines_newline:
  "split_lines (a @ CHR ''\<newline>'' # b) = split_lines a @ split_lines b"
proof (induction a)
  case Nil
  show ?case by simp
next
  case (Cons c a)
  have ne: "split_lines a \<noteq> []" by simp
  show ?case
    using Cons.IH ne by (cases "split_lines a") simp_all
qed

lemma split_lines_one_line: "one_line a \<Longrightarrow> split_lines a = [a]"
  by (induction a) (auto simp: one_line_def)

section \<open>The sentinels of the formatters\<close>

text \<open>
  Claim C5. Each formatter answers an empty input with its fixed sentinel:
  \<^verbatim>\<open>format_articles\<close> on the empty list returns \<^verbatim>\<open>No articles found.\<close>,
  \<^verbatim>\<open>format_article_details\<close> on the empty object or on \<^verbatim>\<open>None\<close> returns
  \<^verbatim>\<open>Article not found.\<close>, and \<^verbatim>\<open>format_user_profile\<close> on the empty object or on
  \<^verbatim>\<open>None\<close> returns \<^verbatim>\<open>User not found.\<close>; none of them returns the empty text.
\<close>

theorem formatters_empty_input:
  "format_articles (JArr []) = Inr ''No articles found.''
   \<and> format_article_details (JObj []) = Inr ''Article not found.''
   \<and> format_article_details JNull = Inr ''Article not found.''
   \<and> format_user_profile (JObj []) = Inr ''User not found.''
   \<and> format_user_profile JNull = Inr ''User not found.''"
  by (simp add: format_articles_def format_article_details_def format_user_profile_def)

section \<open>The user lookup and status 404\<close>

text \<open>
  Claim C3. When the fetch of \<^verbatim>\<open>/users/{username}\<close> ends with an HTTP status error,
  \<^verbatim>\<open>get_user_info\<close> returns the text \<^verbatim>\<open>User {username} not found.\<close> if the status is
  404 and ends with the same status error otherwise. It has sent the one request either
  way.
\<close>

theorem get_user_info_status_error:
  assumes "snd (fetch_from_api http (''/users/'' @ username) None) = Inl (HTTPStatusError code)"
  shows "snd (get_user_info http username) =
           (if code = 404 then Inr (''User '' @ username @ '' not found.'')
            else Inl (HTTPStatusError code))
         \<and> fst (get_user_info http username) = [fetch_request (''/users/'' @ username) None]"
  using assms by (simp add: get_user_info_def snd_io_bind fst_io_bind Let_def)

theorem get_user_info_status_error_witness:
  "snd (fetch_from_api (reply_status 404) (''/users/'' @ ''ada'') None) = Inl (HTTPStatusError 404)
   \<and> snd (get_user_info (reply_status 404) ''ada'') = Inr ''User ada not found.''
   \<and> snd (fetch_from_api (reply_status 500) (''/users/'' @ ''ada'') None) = Inl (HTTPStatusError 500)
   \<and> snd (get_user_info (reply_status 500) ''ada'') = Inl (HTTPStatusError 500)"
proof -
  have a: "snd (fetch_from_api (reply_status 404) (''/users/'' @ ''ada'') None) = Inl (HTTPStatusError 404)"
    by (simp add: fetch_from_api_def)
  have b: "snd (fetch_from_api (reply_status 500) (''/users/'' @ ''ada'') None) = Inl (HTTPStatusError 500)"
    by (simp add: fetch_from_api_def)
  show ?thesis
    using a b get_user_info_status_error [OF a] get_user_info_status_error [OF b] by simp
qed

section \<open>The search filter\<close>








lemma snd_search_articles:
  "snd (search_articles http lower query n) =
     bind_err (snd (fetch_from_api http ''/articles'' (Some [(''page'', JInt n)]))) (\<lambda>articles.
     bind_err (filtered_articles lower query articles) (\<lambda>filtered.
       format_articles (JArr (take 10 filtered))))"
  by (simp add: search_articles_def snd_io_bind)





section \<open>The empty query\<close>

lemma str_in_Nil [simp]: "str_in [] b"
  by (cases b) simp_all

lemma article_matches_empty_query:
  assumes "title_is_text a"
  shows "article_matches lower [] a = Inr True"
proof -
  from assms obtain kvs where a: "a = JObj kvs"
    by (cases a) simp_all
  from assms obtain s where
    "(case map_of kvs ''title'' of None \<Rightarrow> JStr [] | Some v \<Rightarrow> v) = JStr s"
    unfolding a by (auto simp: field_is_text_def split: option.splits json.splits)
  then show ?thesis
    by (simp add: a article_matches_def str_lower_def)
qed

lemma filter_loop_empty_query:
  "list_all title_is_text xs \<Longrightarrow> filter_loop lower [] xs = Inr xs"
  by (induction xs) (simp_all add: article_matches_empty_query)

text \<open>
  Claim C9. With the empty query the test of the comprehension is true for every
  article whose title is missing or a string, whatever its description, also when both
  are missing; so \<^verbatim>\<open>search_articles\<close> with the query \<^verbatim>\<open>""\<close> keeps the whole fetched
  page and returns the formatted first ten articles of it. This holds whatever
  \<^verbatim>\<open>str.lower\<close> computes on the titles.
\<close>

theorem search_articles_empty_query:
  assumes "list_all title_is_text page"
    and "snd (fetch_from_api http ''/articles'' (Some [(''page'', JInt n)])) = Inr (JArr page)"
  shows "list_all (\<lambda>a. article_matches lower [] a = Inr True) page
         \<and> filtered_articles lower [] (JArr page) = Inr page
         \<and> snd (search_articles http lower [] n) = format_articles (JArr (take 10 page))"
proof (intro conjI)
  from assms(1) show "list_all (\<lambda>a. article_matches lower [] a = Inr True) page"
    by (induction page) (simp_all add: article_matches_empty_query)
  from assms(1) show kept: "filtered_articles lower [] (JArr page) = Inr page"
    by (simp add: filtered_articles_def filter_loop_empty_query)
  from assms(2) kept show "snd (search_articles http lower [] n)
      = format_articles (JArr (take 10 page))"
    by (simp add: snd_search_articles)
qed

theorem search_articles_empty_query_witness:
  "list_all title_is_text sample_page
   \<and> snd (fetch_from_api (reply (JArr sample_page)) ''/articles'' (Some [(''page'', JInt 1)]))
        = Inr (JArr sample_page)
   \<and> article_matches example_lower [] (JObj []) = Inr True
   \<and> filtered_articles example_lower [] (JArr sample_page) = Inr sample_page
   \<and> snd (search_articles (reply (JArr sample_page)) example_lower [] 1)
        = format_articles (JArr (take 10 sample_page))"
proof -
  have shape: "list_all title_is_text sample_page"
    by code_simp
  have fetched: "snd (fetch_from_api (reply (JArr sample_page)) ''/articles''
      (Some [(''page'', JInt 1)])) = Inr (JArr sample_page)"
    by (simp add: fetch_from_api_def)
  show ?thesis
    using shape fetched search_articles_empty_query [OF shape fetched, of example_lower]
    by (simp add: sample_page_def)
qed

section \<open>The write handlers\<close>

lemma map_of_update_fields:
  "map_of (update_fields title body_markdown tags published) k =
     (if k = ''title'' then map_option JStr title
      else if k = ''body_markdown'' then map_option JStr body_markdown
      else if k = ''tags'' then map_option JStr tags
      else if k = ''published'' then map_option JBool published
      else None)"
  by (cases title; cases body_markdown; cases tags; cases published)
     (simp_all add: update_fields_def)

lemma distinct_update_fields:
  "distinct (map fst (update_fields title body_markdown tags published))"
  by (cases title; cases body_markdown; cases tags; cases published)
     (simp_all add: update_fields_def)

lemma snd_update_article:
  "snd (update_article http article_id title body_markdown tags published) =
     bind_err (snd (fetch_from_api http (''/articles/'' @ str_int article_id) None)) (\<lambda>article.
     bind_err (snd (send http (update_article_request article_id title body_markdown tags published)))
       (\<lambda>updated_article.
     bind_err (py_get updated_article ''url'' JNull) (\<lambda>link.
       Inr (''Article updated successfully\<newline>URL: '' @ py_str link))))"
  by (simp add: update_article_def snd_io_bind)

lemma fst_update_article:
  "fst (update_article http article_id title body_markdown tags published) =
     fetch_request (''/articles/'' @ str_int article_id) None
     # (case snd (fetch_from_api http (''/articles/'' @ str_int article_id) None) of
          Inl e \<Rightarrow> []
        | Inr article \<Rightarrow> [update_article_request article_id title body_markdown tags published])"
  by (simp add: update_article_def fst_io_bind split: sum.splits)

lemma update_article_requests:
  "fetch_request (''/articles/'' @ str_int article_id) None
     = \<lparr>meth = GET, url = BASE_URL @ ''/articles/'' @ str_int article_id, params = None,
        json_body = None, headers = None, timeout = 10\<rparr>"
  "update_article_request article_id title body_markdown tags published
     = \<lparr>meth = PUT, url = BASE_URL @ ''/articles/'' @ str_int article_id, params = None,
        json_body = Some (JObj [(''article'',
          JObj (update_fields title body_markdown tags published))]),
        headers = None, timeout = 10\<rparr>"
  by (simp_all add: fetch_request_def update_article_request_def update_data_def)

text \<open>
  Claim C7. For every combination of the optional arguments, \<^verbatim>\<open>update_article\<close> first
  sends a GET to the URL of the article, \<^verbatim>\<open>https://dev.to/api/articles/{article_id}\<close>;
  when that fails it ends with the failure and sends nothing else; when it succeeds the
  fetched article is not used, and one PUT to the same URL follows whose JSON is
  \<^verbatim>\<open>{"article": fields}\<close>, where \<^verbatim>\<open>fields\<close> holds exactly those of \<^verbatim>\<open>title\<close>,
  \<^verbatim>\<open>body_markdown\<close>, \<^verbatim>\<open>tags\<close>, \<^verbatim>\<open>published\<close> that are not \<^verbatim>\<open>None\<close>, each with the value
  supplied; and when the PUT is answered with an object the handler returns
  \<^verbatim>\<open>Article updated successfully\<close> and the \<^verbatim>\<open>URL:\<close> line with the object's \<^verbatim>\<open>url\<close>.
\<close>

theorem update_article_get_then_put:
  "(let get = \<lparr>meth = GET, url = BASE_URL @ ''/articles/'' @ str_int article_id, params = None,
                json_body = None, headers = None, timeout = 10\<rparr>;
        put = \<lparr>meth = PUT, url = BASE_URL @ ''/articles/'' @ str_int article_id, params = None,
                json_body = Some (JObj [(''article'',
                  JObj (update_fields title body_markdown tags published))]),
                headers = None, timeout = 10\<rparr>
    in fst (update_article http article_id title body_markdown tags published)
         = get # (case snd (send http get) of Inl e \<Rightarrow> [] | Inr article \<Rightarrow> [put])
       \<and> (snd (send http get) = Inl e \<longrightarrow>
            snd (update_article http article_id title body_markdown tags published) = Inl e)
       \<and> (snd (send http get) = Inr article \<and> snd (send http put) = Inl e' \<longrightarrow>
            snd (update_article http article_id title body_markdown tags published) = Inl e')
       \<and> (snd (send http get) = Inr article \<and> snd (send http put) = Inr (JObj answer) \<longrightarrow>
            snd (update_article http article_id title body_markdown tags published)
              = Inr (''Article updated successfully\<newline>URL: '' @ shown answer ''url'' ''None'')))
   \<and> BASE_URL = ''https://dev.to/api''
   \<and> distinct (map fst (update_fields title body_markdown tags published))
   \<and> map_of (update_fields title body_markdown tags published) k =
        (if k = ''title'' then map_option JStr title
         else if k = ''body_markdown'' then map_option JStr body_markdown
         else if k = ''tags'' then map_option JStr tags
         else if k = ''published'' then map_option JBool published
         else None)"
proof -
  have ok: "snd (update_article http article_id title body_markdown tags published)
      = Inr (''Article updated successfully\<newline>URL: '' @ shown answer ''url'' ''None'')"
    if "snd (fetch_from_api http (''/articles/'' @ str_int article_id) None) = Inr article"
      and "snd (send http (update_article_request article_id title body_markdown tags published))
        = Inr (JObj answer)"
    using that by (simp add: snd_update_article shown_def split: option.splits)
  have log: "fst (update_article http article_id title body_markdown tags published) =
     fetch_request (''/articles/'' @ str_int article_id) None
     # (case snd (send http (fetch_request (''/articles/'' @ str_int article_id) None)) of
          Inl e \<Rightarrow> []
        | Inr article \<Rightarrow> [update_article_request article_id title body_markdown tags published])"
    by (simp add: fst_update_article fetch_from_api_def)
  show ?thesis
    using ok log
    unfolding Let_def update_article_requests [symmetric]
    by (simp add: snd_update_article map_of_update_fields distinct_update_fields
        fetch_from_api_def BASE_URL_def)
qed

theorem update_article_get_then_put_witness:
  "snd (send (reply (JObj [(''url'', JStr ''https://dev.to/a/b'')]))
         \<lparr>meth = GET, url = ''https://dev.to/api/articles/12'', params = None,
           json_body = None, headers = None, timeout = 10\<rparr>)
     = Inr (JObj [(''url'', JStr ''https://dev.to/a/b'')])
   \<and> snd (send (reply (JObj [(''url'', JStr ''https://dev.to/a/b'')]))
         \<lparr>meth = PUT, url = ''https://dev.to/api/articles/12'', params = None,
           json_body = Some (JObj [(''article'',
             JObj [(''body_markdown'', JStr ''text''), (''published'', JBool True)])]),
           headers = None, timeout = 10\<rparr>)
     = Inr (JObj [(''url'', JStr ''https://dev.to/a/b'')])
   \<and> update_article (reply (JObj [(''url'', JStr ''https://dev.to/a/b'')])) 12 None (Some ''text'')
        None (Some True)
      = ([\<lparr>meth = GET, url = ''https://dev.to/api/articles/12'', params = None,
            json_body = None, headers = None, timeout = 10\<rparr>,
          \<lparr>meth = PUT, url = ''https://dev.to/api/articles/12'', params = None,
            json_body = Some (JObj [(''article'',
              JObj [(''body_markdown'', JStr ''text''), (''published'', JBool True)])]),
            headers = None, timeout = 10\<rparr>],
         Inr ''Article updated successfully\<newline>URL: https://dev.to/a/b'')
   \<and> snd (send (reply_status 404)
         \<lparr>meth = GET, url = ''https://dev.to/api/articles/12'', params = None,
           json_body = None, headers = None, timeout = 10\<rparr>)
     = Inl (HTTPStatusError 404)
   \<and> update_article (reply_status 404) 12 None (Some ''text'') None (Some True)
      = ([\<lparr>meth = GET, url = ''https://dev.to/api/articles/12'', params = None,
            json_body = None, headers = None, timeout = 10\<rparr>],
         Inl (HTTPStatusError 404))
   \<and> snd (send (reply_to_get (JObj []) 401)
         \<lparr>meth = GET, url = ''https://dev.to/api/articles/12'', params = None,
           json_body = None, headers = None, timeout = 10\<rparr>)
     = Inr (JObj [])
   \<and> snd (send (reply_to_get (JObj []) 401)
         \<lparr>meth = PUT, url = ''https://dev.to/api/articles/12'', params = None,
           json_body = Some (JObj [(''article'',
             JObj [(''body_markdown'', JStr ''text''), (''published'', JBool True)])]),
           headers = None, timeout = 10\<rparr>)
     = Inl (HTTPStatusError 401)
   \<and> update_article (reply_to_get (JObj []) 401) 12 None (Some ''text'') None (Some True)
      = ([\<lparr>meth = GET, url = ''https://dev.to/api/articles/12'', params = None,
            json_body = None, headers = None, timeout = 10\<rparr>,
          \<lparr>meth = PUT, url = ''https://dev.to/api/articles/12'', params = None,
            json_body = Some (JObj [(''article'',
              JObj [(''body_markdown'', JStr ''text''), (''published'', JBool True)])]),
            headers = None, timeout = 10\<rparr>],
         Inl (HTTPStatusError 401))"
proof -
  have twelve: "str_int 12 = ''12''"
    by code_simp
  have fields: "update_fields None (Some ''text'') None (Some True)
      = [(''body_markdown'', JStr ''text''), (''published'', JBool True)]"
    by (simp add: update_fields_def)
  have got: "snd (send (reply_to_get (JObj []) 401)
      \<lparr>meth = GET, url = ''https://dev.to/api/articles/12'', params = None,
        json_body = None, headers = None, timeout = 10\<rparr>) = Inr (JObj [])"
    by (simp add: send_def reply_to_get_def raise_for_status_def response_json_def)
  have refused: "snd (send (reply_to_get (JObj []) 401)
      \<lparr>meth = PUT, url = ''https://dev.to/api/articles/12'', params = None,
        json_body = Some (JObj [(''article'',
          JObj [(''body_markdown'', JStr ''text''), (''published'', JBool True)])]),
        headers = None, timeout = 10\<rparr>) = Inl (HTTPStatusError 401)"
    by (simp add: send_def reply_to_get_def raise_for_status_def)
  have first: "update_article (reply (JObj [(''url'', JStr ''https://dev.to/a/b'')])) 12 None
      (Some ''text'') None (Some True)
      = ([\<lparr>meth = GET, url = ''https://dev.to/api/articles/12'', params = None,
            json_body = None, headers = None, timeout = 10\<rparr>,
          \<lparr>meth = PUT, url = ''https://dev.to/api/articles/12'', params = None,
            json_body = Some (JObj [(''article'',
              JObj [(''body_markdown'', JStr ''text''), (''published'', JBool True)])]),
            headers = None, timeout = 10\<rparr>],
         Inr ''Article updated successfully\<newline>URL: https://dev.to/a/b'')"
    using update_article_get_then_put [of 12 None "Some ''text''" None "Some True"
        "reply (JObj [(''url'', JStr ''https://dev.to/a/b'')])" "HTTPStatusError 404"
        "JObj [(''url'', JStr ''https://dev.to/a/b'')]" "HTTPStatusError 404"
        "[(''url'', JStr ''https://dev.to/a/b'')]" "''title''"]
    by (simp add: Let_def prod_eq_iff twelve fields shown_def BASE_URL_def)
  have second: "update_article (reply_status 404) 12 None (Some ''text'') None (Some True)
      = ([\<lparr>meth = GET, url = ''https://dev.to/api/articles/12'', params = None,
            json_body = None, headers = None, timeout = 10\<rparr>],
         Inl (HTTPStatusError 404))"
    using update_article_get_then_put [of 12 None "Some ''text''" None "Some True"
        "reply_status 404" "HTTPStatusError 404" "JObj []" "HTTPStatusError 404" "[]" "''title''"]
    by (simp add: Let_def prod_eq_iff twelve fields BASE_URL_def)
  have third: "update_article (reply_to_get (JObj []) 401) 12 None (Some ''text'') None (Some True)
      = ([\<lparr>meth = GET, url = ''https://dev.to/api/articles/12'', params = None,
            json_body = None, headers = None, timeout = 10\<rparr>,
          \<lparr>meth = PUT, url = ''https://dev.to/api/articles/12'', params = None,
            json_body = Some (JObj [(''article'',
              JObj [(''body_markdown'', JStr ''text''), (''published'', JBool True)])]),
            headers = None, timeout = 10\<rparr>],
         Inl (HTTPStatusError 401))"
    using got refused
      update_article_get_then_put [of 12 None "Some ''text''" None "Some True"
        "reply_to_get (JObj []) 401" "HTTPStatusError 404" "JObj []" "HTTPStatusError 401" "[]"
        "''title''"]
    by (simp add: Let_def prod_eq_iff twelve fields BASE_URL_def)
  show ?thesis
    using got refused first second third by simp
qed

lemma header_values_create_article:
  "header_values (create_article_headers getenv)
     = (case getenv ''DEV_TO_API_KEY'' of
          None \<Rightarrow> Inl TypeError
        | Some key \<Rightarrow> Inr [(''Content-Type'', ''application/json''), (''api-key'', key)])"
  by (simp add: create_article_headers_def split: option.splits)

lemma create_article_with_key:
  assumes "getenv ''DEV_TO_API_KEY'' = Some key"
  shows "create_article http getenv title body_markdown tags published
     = io_bind (send http (create_article_request
          [(''Content-Type'', ''application/json''), (''api-key'', key)]
          title body_markdown tags published))
       (\<lambda>article.
          done_with
            (bind_err (py_get article ''id'' JNull) (\<lambda>ident.
             bind_err (py_get article ''url'' JNull) (\<lambda>link.
               Inr (''Article created successfully with ID: '' @ py_str ident
                    @ ''\<newline>URL: '' @ py_str link)))))"
  by (simp add: create_article_def header_values_create_article assms)

lemma create_article_request_record:
  "create_article_request hs title body_markdown tags published
     = \<lparr>meth = POST, url = BASE_URL @ ''/articles'', params = None,
        json_body = Some (JObj [(''article'',
          JObj [(''title'', JStr title), (''body_markdown'', JStr body_markdown),
                (''published'', JBool published), (''tags'', JStr tags)])]),
        headers = Some hs, timeout = 10\<rparr>"
  by (simp add: create_article_request_def create_article_data_def)

text \<open>
  Claim C8, as the code has it. When the variable \<^verbatim>\<open>DEV_TO_API_KEY\<close> is set,
  \<^verbatim>\<open>create_article\<close> sends exactly one request: a POST to
  \<^verbatim>\<open>https://dev.to/api/articles\<close> whose JSON is
  \<^verbatim>\<open>{"article": {title, body_markdown, published, tags}}\<close> with the arguments as values,
  and whose headers are \<^verbatim>\<open>Content-Type\<close> and \<^verbatim>\<open>api-key\<close>, the latter with the value of the
  variable. When the request is answered with an object, the handler returns the text
  with the object's \<^verbatim>\<open>id\<close> and \<^verbatim>\<open>url\<close>; when it fails, the handler ends with the failure.
  When the variable is not set, the handler sends nothing and ends with the
  \<^verbatim>\<open>TypeError\<close> of the header value \<^verbatim>\<open>None\<close>. Every request of \<^verbatim>\<open>update_article\<close>, its PUT
  included, is sent without headers.
\<close>

theorem create_article_post_with_api_key:
  "(getenv ''DEV_TO_API_KEY'' = Some key \<longrightarrow>
      (let post = \<lparr>meth = POST, url = BASE_URL @ ''/articles'', params = None,
                    json_body = Some (JObj [(''article'',
                      JObj [(''title'', JStr title), (''body_markdown'', JStr body_markdown),
                            (''published'', JBool published), (''tags'', JStr tags)])]),
                    headers = Some [(''Content-Type'', ''application/json''), (''api-key'', key)],
                    timeout = 10\<rparr>
       in fst (create_article http getenv title body_markdown tags published) = [post]
          \<and> (snd (send http post) = Inr (JObj answer) \<longrightarrow>
               snd (create_article http getenv title body_markdown tags published)
                 = Inr (''Article created successfully with ID: '' @ shown answer ''id'' ''None''
                        @ ''\<newline>URL: '' @ shown answer ''url'' ''None''))
          \<and> (snd (send http post) = Inl e \<longrightarrow>
               snd (create_article http getenv title body_markdown tags published) = Inl e)))
   \<and> (getenv ''DEV_TO_API_KEY'' = None \<longrightarrow>
        create_article http getenv title body_markdown tags published = ([], Inl TypeError))
   \<and> BASE_URL = ''https://dev.to/api''
   \<and> headers (update_article_request article_id new_title new_body new_tags new_published) = None
   \<and> list_all (\<lambda>r. headers r = None)
        (fst (update_article http article_id new_title new_body new_tags new_published))"
proof (intro conjI impI)
  assume key: "getenv ''DEV_TO_API_KEY'' = Some key"
  have ok: "snd (create_article http getenv title body_markdown tags published)
      = Inr (''Article created successfully with ID: '' @ shown answer ''id'' ''None''
             @ ''\<newline>URL: '' @ shown answer ''url'' ''None'')"
    if "snd (send http (create_article_request
          [(''Content-Type'', ''application/json''), (''api-key'', key)]
          title body_markdown tags published)) = Inr (JObj answer)"
    using that
    by (simp add: create_article_with_key [of getenv key, OF key] snd_io_bind shown_def
        split: option.splits)
  show "let post = \<lparr>meth = POST, url = BASE_URL @ ''/articles'', params = None,
                    json_body = Some (JObj [(''article'',
                      JObj [(''title'', JStr title), (''body_markdown'', JStr body_markdown),
                            (''published'', JBool published), (''tags'', JStr tags)])]),
                    headers = Some [(''Content-Type'', ''application/json''), (''api-key'', key)],
                    timeout = 10\<rparr>
       in fst (create_article http getenv title body_markdown tags published) = [post]
          \<and> (snd (send http post) = Inr (JObj answer) \<longrightarrow>
               snd (create_article http getenv title body_markdown tags published)
                 = Inr (''Article created successfully with ID: '' @ shown answer ''id'' ''None''
                        @ ''\<newline>URL: '' @ shown answer ''url'' ''None''))
          \<and> (snd (send http post) = Inl e \<longrightarrow>
               snd (create_article http getenv title body_markdown tags published) = Inl e)"
    unfolding Let_def create_article_request_record [symmetric]
    using ok
    by (simp add: create_article_with_key [of getenv key, OF key] snd_io_bind fst_io_bind
        split: sum.splits)
next
  assume "getenv ''DEV_TO_API_KEY'' = None"
  then show "create_article http getenv title body_markdown tags published = ([], Inl TypeError)"
    by (simp add: create_article_def header_values_create_article)
next
  show "BASE_URL = ''https://dev.to/api''"
    by (simp add: BASE_URL_def)
  show bare: "headers (update_article_request article_id new_title new_body new_tags new_published)
      = None"
    by (simp add: update_article_request_def)
  show "list_all (\<lambda>r. headers r = None)
      (fst (update_article http article_id new_title new_body new_tags new_published))"
    by (simp add: fst_update_article bare fetch_request_def split: sum.splits)
qed

theorem create_article_post_with_api_key_witness:
  "[''DEV_TO_API_KEY'' \<mapsto> ''secret''] ''DEV_TO_API_KEY'' = Some ''secret''
   \<and> snd (send (reply (JObj [(''id'', JInt 7), (''url'', JStr ''https://dev.to/a/b'')]))
         \<lparr>meth = POST, url = ''https://dev.to/api/articles'', params = None,
           json_body = Some (JObj [(''article'',
             JObj [(''title'', JStr ''T''), (''body_markdown'', JStr ''B''),
                   (''published'', JBool False), (''tags'', JStr ''x,y'')])]),
           headers = Some [(''Content-Type'', ''application/json''), (''api-key'', ''secret'')],
           timeout = 10\<rparr>)
     = Inr (JObj [(''id'', JInt 7), (''url'', JStr ''https://dev.to/a/b'')])
   \<and> create_article (reply (JObj [(''id'', JInt 7), (''url'', JStr ''https://dev.to/a/b'')]))
        [''DEV_TO_API_KEY'' \<mapsto> ''secret''] ''T'' ''B'' ''x,y'' False
      = ([\<lparr>meth = POST, url = ''https://dev.to/api/articles'', params = None,
            json_body = Some (JObj [(''article'',
              JObj [(''title'', JStr ''T''), (''body_markdown'', JStr ''B''),
                    (''published'', JBool False), (''tags'', JStr ''x,y'')])]),
            headers = Some [(''Content-Type'', ''application/json''), (''api-key'', ''secret'')],
            timeout = 10\<rparr>],
         Inr ''Article created successfully with ID: 7\<newline>URL: https://dev.to/a/b'')
   \<and> snd (send (reply_status 401)
         \<lparr>meth = POST, url = ''https://dev.to/api/articles'', params = None,
           json_body = Some (JObj [(''article'',
             JObj [(''title'', JStr ''T''), (''body_markdown'', JStr ''B''),
                   (''published'', JBool False), (''tags'', JStr ''x,y'')])]),
           headers = Some [(''Content-Type'', ''application/json''), (''api-key'', ''secret'')],
           timeout = 10\<rparr>)
     = Inl (HTTPStatusError 401)
   \<and> snd (create_article (reply_status 401) [''DEV_TO_API_KEY'' \<mapsto> ''secret''] ''T'' ''B''
        ''x,y'' False) = Inl (HTTPStatusError 401)
   \<and> Map.empty ''DEV_TO_API_KEY'' = (None :: string option)
   \<and> create_article (reply (JObj [(''id'', JInt 7)])) Map.empty ''T'' ''B'' ''x,y'' False
      = ([], Inl TypeError)"
proof -
  have seven: "str_int 7 = ''7''"
    by code_simp
  have set: "[''DEV_TO_API_KEY'' \<mapsto> ''secret''] ''DEV_TO_API_KEY'' = Some ''secret''"
    by simp
  have unset: "Map.empty ''DEV_TO_API_KEY'' = (None :: string option)"
    by simp
  have first: "create_article (reply (JObj [(''id'', JInt 7), (''url'', JStr ''https://dev.to/a/b'')]))
      [''DEV_TO_API_KEY'' \<mapsto> ''secret''] ''T'' ''B'' ''x,y'' False
      = ([\<lparr>meth = POST, url = ''https://dev.to/api/articles'', params = None,
            json_body = Some (JObj [(''article'',
              JObj [(''title'', JStr ''T''), (''body_markdown'', JStr ''B''),
                    (''published'', JBool False), (''tags'', JStr ''x,y'')])]),
            headers = Some [(''Content-Type'', ''application/json''), (''api-key'', ''secret'')],
            timeout = 10\<rparr>],
         Inr ''Article created successfully with ID: 7\<newline>URL: https://dev.to/a/b'')"
    using set seven
      create_article_post_with_api_key
        [of "[''DEV_TO_API_KEY'' \<mapsto> ''secret'']" "''secret''" "''T''" "''B''" False "''x,y''"
          "reply (JObj [(''id'', JInt 7), (''url'', JStr ''https://dev.to/a/b'')])"
          "[(''id'', JInt 7), (''url'', JStr ''https://dev.to/a/b'')]" "HTTPStatusError 401"
          12 None None None None]
    by (simp add: Let_def prod_eq_iff shown_def)
  have second: "snd (create_article (reply_status 401) [''DEV_TO_API_KEY'' \<mapsto> ''secret''] ''T'' ''B''
      ''x,y'' False) = Inl (HTTPStatusError 401)"
    using set
      create_article_post_with_api_key
        [of "[''DEV_TO_API_KEY'' \<mapsto> ''secret'']" "''secret''" "''T''" "''B''" False "''x,y''"
          "reply_status 401" "[]" "HTTPStatusError 401" 12 None None None None]
    by (simp add: Let_def)
  have third: "create_article (reply (JObj [(''id'', JInt 7)])) Map.empty ''T'' ''B'' ''x,y'' False
      = ([], Inl TypeError)"
    using unset
      create_article_post_with_api_key
        [of Map.empty "''secret''" "''T''" "''B''" False "''x,y''"
          "reply (JObj [(''id'', JInt 7)])" "[]" "HTTPStatusError 401" 12 None None None None]
    by simp
  show ?thesis
    using set unset first second third by simp
qed

theorem create_article_without_api_key:
  "create_article (reply (JObj [(''id'', JInt 7), (''url'', JStr ''https://dev.to/a/b'')]))
     Map.empty ''T'' ''B'' ''x,y'' False
   = ([], Inl TypeError)"
  by (simp add: create_article_def create_article_headers_def)

section \<open>What the formatters return\<close>

lemma unlines_Nil [simp]: "unlines [] = []"
  by (simp add: unlines_def)

lemma unlines_Cons [simp]: "unlines (l # ls) = l @ CHR ''\<newline>'' # unlines ls"
  by (simp add: unlines_def)

lemma unlines_append: "unlines (a @ b) = unlines a @ unlines b"
  by (simp add: unlines_def)

lemma py_str_get: "py_str (case map_of kvs k of None \<Rightarrow> JStr d | Some v \<Rightarrow> v) = shown kvs k d"
  by (simp add: shown_def split: option.splits)

lemma truthy_get:
  "truthy (case map_of kvs k of None \<Rightarrow> JStr [] | Some v \<Rightarrow> v) = field_truthy kvs k"
  by (simp add: field_truthy_def split: option.splits)

lemma author_get:
  assumes "user_is_object kvs"
  shows "bind_err (py_get (case map_of kvs ''user'' of None \<Rightarrow> JObj [] | Some v \<Rightarrow> v) ''name''
           (JStr ''Unknown Author'')) f
         = f (case map_of kvs ''user'' of
                Some (JObj u) \<Rightarrow> (case map_of u ''name'' of None \<Rightarrow> JStr ''Unknown Author'' | Some v \<Rightarrow> v)
              | _ \<Rightarrow> JStr ''Unknown Author'')"
  using assms by (simp add: user_is_object_def split: option.splits json.splits)

lemma py_str_author:
  "py_str (case map_of kvs ''user'' of
             Some (JObj u) \<Rightarrow> (case map_of u ''name'' of None \<Rightarrow> JStr ''Unknown Author'' | Some v \<Rightarrow> v)
           | _ \<Rightarrow> JStr ''Unknown Author'')
   = author_shown kvs"
  by (simp add: author_shown_def shown_def split: option.splits json.splits)

lemma format_article_block_ok:
  "user_is_object kvs \<Longrightarrow> format_article_block (JObj kvs) = Inr (article_block kvs)"
  by (simp add: format_article_block_def article_block_def article_lines_def author_get py_str_get py_str_author)

lemma format_article_block_no_user_object:
  "\<not> is_article a \<Longrightarrow> format_article_block a = Inl AttributeError"
  by (cases a)
     (auto simp: format_article_block_def user_is_object_def split: option.splits json.splits)

lemma format_loop_ok:
  "list_all is_article xs \<Longrightarrow>
     format_loop acc xs = Inr (acc @ concat (map (\<lambda>a. article_block (fields_of a)) xs))"
proof (induction xs arbitrary: acc)
  case Nil
  then show ?case by simp
next
  case (Cons a xs)
  from Cons.prems obtain kvs where a: "a = JObj kvs" and u: "user_is_object kvs"
    by (cases a) simp_all
  from Cons.prems have "list_all is_article xs" by simp
  from Cons.IH [OF this] show ?case
    by (simp add: a format_article_block_ok [OF u])
qed

lemma format_articles_ok:
  "list_all is_article xs \<Longrightarrow>
     format_articles (JArr xs) = Inr (if xs = [] then ''No articles found.'' else articles_text xs)"
  by (simp add: format_articles_def format_loop_ok articles_text_def)

lemma format_article_details_ok:
  assumes "kvs \<noteq> []" and "user_is_object kvs" and "field_is_text kvs ''body_markdown''"
  shows "format_article_details (JObj kvs) = Inr (details_text kvs)"
proof -
  from assms(3) obtain s where
    b: "(case map_of kvs ''body_markdown'' of None \<Rightarrow> JStr ''No content available.'' | Some v \<Rightarrow> v)
        = JStr s"
    and s: "shown kvs ''body_markdown'' ''No content available.'' = s"
    by (auto simp: field_is_text_def shown_def split: option.splits json.splits)
  show ?thesis
    using assms(1)
    by (simp add: format_article_details_def details_text_def author_get [OF assms(2)] py_str_get
        py_str_author b s)
qed

lemma opt_line_get:
  "opt_line label (case map_of kvs k of None \<Rightarrow> JStr [] | Some v \<Rightarrow> v)
     = unlines (optional_line label kvs k)"
  by (simp add: opt_line_def optional_line_def truthy_get py_str_get)

lemma format_user_profile_ok:
  "kvs \<noteq> [] \<Longrightarrow> format_user_profile (JObj kvs) = Inr (profile_text kvs)"
  by (simp add: format_user_profile_def profile_text_def profile_lines_def py_str_get
      opt_line_get unlines_append)

section \<open>The text of the top articles\<close>

lemma snd_get_top_articles:
  "snd (get_top_articles http) =
     bind_err (snd (fetch_from_api http ''/articles'' None)) (\<lambda>articles.
     bind_err (slice10 articles) format_articles)"
  by (simp add: get_top_articles_def snd_io_bind)





section \<open>Missing fields and their defaults\<close>

text \<open>
  Claim C6, as the code has it. On a list of objects \<^verbatim>\<open>format_articles\<close>, and on a
  non-empty object \<^verbatim>\<open>format_article_details\<close> and \<^verbatim>\<open>format_user_profile\<close>, return a text
  and do not fail, whichever keys are missing, provided that a \<^verbatim>\<open>user\<close>, when present,
  is an object and, for \<^verbatim>\<open>format_article_details\<close>, that a \<^verbatim>\<open>body_markdown\<close>, when present,
  is a string; \<^verbatim>\<open>format_user_profile\<close> needs no such proviso. In the text every missing
  field stands as its default: \<^verbatim>\<open>Untitled\<close>, \<^verbatim>\<open>Unknown Author\<close> (also for a user without a
  name), \<^verbatim>\<open>Unknown date\<close>, \<^verbatim>\<open>No description available.\<close>, \<^verbatim>\<open>No content available.\<close>,
  \<^verbatim>\<open>Unknown\<close>, \<^verbatim>\<open>No bio available.\<close>, the empty text for the identifier and the tags, and
  no line for an optional field of a profile.
\<close>

theorem formatters_missing_fields:
  "(list_all is_article xs \<longrightarrow>
      format_articles (JArr xs)
        = Inr (if xs = [] then ''No articles found.'' else articles_text xs))
   \<and> (kvs \<noteq> [] \<and> user_is_object kvs \<and> field_is_text kvs ''body_markdown'' \<longrightarrow>
      format_article_details (JObj kvs) = Inr (details_text kvs))
   \<and> (kvs \<noteq> [] \<longrightarrow> format_user_profile (JObj kvs) = Inr (profile_text kvs))
   \<and> (map_of kvs k = None \<longrightarrow> shown kvs k dflt = dflt \<and> optional_line label kvs k = [])
   \<and> (map_of kvs ''user'' = None \<longrightarrow> author_shown kvs = ''Unknown Author'')
   \<and> (map_of kvs ''user'' = Some (JObj u) \<and> map_of u ''name'' = None \<longrightarrow>
      author_shown kvs = ''Unknown Author'')"
  by (simp add: format_articles_ok format_article_details_ok format_user_profile_ok shown_def
      optional_line_def field_truthy_def author_shown_def)

theorem formatters_missing_fields_witness:
  "list_all is_article [JObj []]
   \<and> format_articles (JArr [JObj []])
     = Inr ''# Dev.to Articles\<newline>\<newline>## Untitled\<newline>ID: \<newline>Author: Unknown Author\<newline>Published: Unknown date\<newline>Tags: \<newline>Description: No description available.\<newline>\<newline>''
   \<and> [(''user'', JObj [])] \<noteq> [] \<and> user_is_object [(''user'', JObj [])]
   \<and> field_is_text [(''user'', JObj [])] ''body_markdown''
   \<and> format_article_details (JObj [(''user'', JObj [])])
     = Inr ''# Untitled\<newline>\<newline>Author: Unknown Author\<newline>Published: Unknown date\<newline>Tags: \<newline>\<newline>## Content\<newline>\<newline>No content available.''
   \<and> format_user_profile (JObj [(''user'', JObj [])])
     = Inr ''# Unknown (@Unknown)\<newline>\<newline>Bio: No bio available.\<newline>\<newline>## Details\<newline>\<newline>## Links\<newline>''
   \<and> map_of [(''user'', JObj [])] ''title'' = None
   \<and> map_of [(''user'', JObj [])] ''user'' = Some (JObj []) \<and> map_of [] ''name'' = None
   \<and> map_of [] ''user'' = None"
proof -
  have a: "list_all is_article [JObj []]"
    by (simp add: user_is_object_def)
  have b: "[(''user'', JObj [])] \<noteq> [] \<and> user_is_object [(''user'', JObj [])]
      \<and> field_is_text [(''user'', JObj [])] ''body_markdown''"
    by (simp add: user_is_object_def field_is_text_def)
  show ?thesis
    using a b
      formatters_missing_fields [of "[JObj []]" "[(''user'', JObj [])]" "''title''" "''Untitled''"
        "''Location: ''" "[]"]
      formatters_missing_fields [of "[JObj []]" "[]" "''title''" "''Untitled''"
        "''Location: ''" "[]"]
    by (simp add: articles_text_def article_block_def article_lines_def details_text_def profile_text_def
        profile_lines_def shown_def author_shown_def optional_line_def field_truthy_def)
qed

theorem formatters_empty_or_misshapen:
  "format_article_details (JObj []) = Inr ''Article not found.''
   \<and> format_user_profile (JObj []) = Inr ''User not found.''
   \<and> format_articles (JArr [JObj [(''user'', JNull)]]) = Inl AttributeError
   \<and> format_article_details (JObj [(''user'', JNull)]) = Inl AttributeError
   \<and> format_article_details (JObj [(''body_markdown'', JNull)]) = Inl TypeError"
  by (simp add: format_articles_def format_article_block_def format_article_details_def
      format_user_profile_def)

section \<open>Lines of the texts\<close>

lemma split_lines_unlines:
  "split_lines (unlines ss @ r) = concat (map split_lines ss) @ split_lines r"
  by (induction ss) (simp_all add: split_lines_newline)

lemma split_lines_hd_continuation: "split_lines s = hd (split_lines s) # continuation_lines s"
  by (simp add: continuation_lines_def)

lemma hd_split_lines_Cons:
  "hd (split_lines (c # cs)) = (if c = CHR ''\<newline>'' then [] else c # hd (split_lines cs))"
  by (cases "split_lines cs") simp_all

lemma continuation_lines_Cons:
  "continuation_lines (c # cs)
     = (if c = CHR ''\<newline>'' then split_lines cs else continuation_lines cs)"
  by (cases "split_lines cs") (simp_all add: continuation_lines_def)

lemma continuation_lines_Nil [simp]: "continuation_lines [] = []"
  by (simp add: continuation_lines_def)

lemma filter_split_lines:
  "filter P (split_lines s)
     = (if P (hd (split_lines s)) then [hd (split_lines s)] else []) @ filter P (continuation_lines s)"
  by (subst split_lines_hd_continuation) simp

lemma list_ex_split_lines:
  "list_ex P (split_lines s) \<longleftrightarrow> P (hd (split_lines s)) \<or> filter P (continuation_lines s) \<noteq> []"
  by (subst split_lines_hd_continuation) (auto simp: list_ex_iff filter_empty_conv)

lemma split_lines_append:
  "split_lines (a @ b)
     = butlast (split_lines a) @ (last (split_lines a) @ hd (split_lines b)) # tl (split_lines b)"
proof (induction a)
  case Nil
  show ?case by simp
next
  case (Cons c a)
  show ?case
  proof (cases "split_lines a")
    case Nil
    then show ?thesis by simp
  next
    case (Cons l ls)
    with Cons.IH show ?thesis
      by (cases ls) simp_all
  qed
qed

lemma no_line_inside_append:
  assumes a: "no_line_inside L a" and b: "no_line_inside L b"
    and join: "\<And>l. \<not> prefix L l \<Longrightarrow> \<not> prefix L (l @ hd (split_lines b))"
  shows "no_line_inside L (a @ b)"
proof (cases "split_lines a")
  case Nil
  then show ?thesis by simp
next
  case (Cons x ys)
  show ?thesis
  proof (cases ys rule: rev_cases)
    case Nil
    with Cons b show ?thesis
      by (simp add: no_line_inside_def continuation_lines_def split_lines_append)
  next
    case (snoc zs z)
    from a Cons snoc have inner: "\<forall>l \<in> set zs. \<not> prefix L l" and "\<not> prefix L z"
      by (auto simp: no_line_inside_def continuation_lines_def filter_empty_conv)
    then have "\<not> prefix L (z @ hd (split_lines b))"
      using join by blast
    with inner b Cons snoc show ?thesis
      by (simp add: no_line_inside_def continuation_lines_def split_lines_append
          filter_empty_conv butlast_append)
  qed
qed

lemma not_prefix_before_paren:
  assumes "\<not> prefix L l" and "last L \<noteq> CHR '' ''" and "CHR ''('' \<notin> set L"
  shows "\<not> prefix L (l @ CHR '' '' # CHR ''('' # z)"
proof
  assume "prefix L (l @ CHR '' '' # CHR ''('' # z)"
  with assms(1) obtain us where L: "L = l @ us" and us: "prefix us (CHR '' '' # CHR ''('' # z)"
    and ne: "us \<noteq> []"
    by (auto simp: prefix_append)
  from us ne obtain us' where u: "us = CHR '' '' # us'" and p: "prefix us' (CHR ''('' # z)"
    by (cases us) auto
  show False
  proof (cases us')
    case Nil
    with L u assms(2) show False by simp
  next
    case (Cons d ds)
    with p have "d = CHR ''(''" by simp
    with L u Cons assms(3) show False by simp
  qed
qed

lemma not_prefix_before_close:
  assumes "\<not> prefix L l" and "last L \<noteq> CHR '')''"
  shows "\<not> prefix L (l @ [CHR '')''])"
proof
  assume "prefix L (l @ [CHR '')''])"
  with assms(1) obtain us where L: "L = l @ us" and us: "prefix us [CHR '')'']" and ne: "us \<noteq> []"
    by (auto simp: prefix_append)
  from us ne have "us = [CHR '')'']"
    by (cases us) auto
  with L assms(2) show False by simp
qed

text \<open>The first line of a profile shows two texts. A label that does not end with a
  space or a closing parenthesis and has no opening parenthesis starts none of its
  later lines unless it starts a later line of one of the two.\<close>

lemma no_line_inside_name_line:
  assumes n: "no_line_inside L name" and u: "no_line_inside L username"
    and "last L \<noteq> CHR '' ''" and "CHR ''('' \<notin> set L" and "last L \<noteq> CHR '')''"
  shows "no_line_inside L (name @ '' (@'' @ username @ '')'')"
proof -
  have close: "no_line_inside L (username @ '')'')"
  proof (rule no_line_inside_append [OF u])
    show "no_line_inside L '')''"
      by (simp add: no_line_inside_def continuation_lines_Cons)
    show "\<not> prefix L (l @ hd (split_lines '')''))" if "\<not> prefix L l" for l
      using not_prefix_before_close [OF that assms(5)]
      by (simp add: hd_split_lines_Cons del: split_lines.simps(2))
  qed
  show ?thesis
  proof (rule no_line_inside_append [OF n])
    show "no_line_inside L ('' (@'' @ username @ '')'')"
      using close by (simp add: no_line_inside_def continuation_lines_Cons)
    show "\<not> prefix L (l @ hd (split_lines ('' (@'' @ username @ '')'')))" if "\<not> prefix L l" for l
      using not_prefix_before_paren [OF that assms(3,4)]
      by (simp add: hd_split_lines_Cons del: split_lines.simps(2))
  qed
qed

section \<open>One heading for each article, ten at most\<close>

lemma article_lines_headings:
  assumes "no_inner_heading (JObj kvs)"
  shows "length (filter (prefix ''## '') (concat (map split_lines (article_lines kvs)))) = 1"
  using assms
  by (simp add: article_lines_def filter_split_lines hd_split_lines_Cons continuation_lines_Cons
      no_line_inside_def del: split_lines.simps(2))

lemma no_inner_heading_is_article: "no_inner_heading a \<Longrightarrow> is_article a"
  by (cases a) simp_all

lemma blocks_lines:
  "split_lines (concat (map (\<lambda>a. article_block (fields_of a)) xs) @ r)
     = concat (map (\<lambda>a. concat (map split_lines (article_lines (fields_of a)))) xs) @ split_lines r"
  by (induction xs) (simp_all add: article_block_def split_lines_unlines)

lemma blocks_headings:
  "list_all no_inner_heading xs \<Longrightarrow>
     length (filter (prefix ''## '')
       (concat (map (\<lambda>a. concat (map split_lines (article_lines (fields_of a)))) xs))) = length xs"
proof (induction xs)
  case Nil
  show ?case by simp
next
  case (Cons a xs)
  from Cons.prems obtain kvs where a: "a = JObj kvs" and h: "no_inner_heading (JObj kvs)"
    by (cases a) simp_all
  from Cons.prems have "list_all no_inner_heading xs" by simp
  from Cons.IH [OF this] article_lines_headings [OF h] show ?case
    by (simp add: a)
qed

lemma heading_count_articles_text:
  assumes "list_all no_inner_heading xs"
  shows "heading_count (articles_text xs) = length xs"
proof -
  have "split_lines (articles_text xs)
      = [''# Dev.to Articles'', []]
        @ concat (map (\<lambda>a. concat (map split_lines (article_lines (fields_of a)))) xs) @ [[]]"
    using blocks_lines [of xs "[]"] by (simp add: articles_text_def)
  then show ?thesis
    using blocks_headings [OF assms] by (simp add: heading_count_def)
qed

lemma one_heading_each_first_ten:
  assumes "list_all no_inner_heading (take 10 xs)"
  shows "one_heading_each (take 10 xs) (format_articles (JArr (take 10 xs)))"
proof -
  from assms have "list_all is_article (take 10 xs)"
    by (auto simp: list_all_iff intro: no_inner_heading_is_article)
  then have "format_articles (JArr (take 10 xs))
      = Inr (if take 10 xs = [] then ''No articles found.'' else articles_text (take 10 xs))"
    by (rule format_articles_ok)
  moreover have "heading_count ''No articles found.'' = 0"
    by (simp add: heading_count_def)
  ultimately show ?thesis
    using heading_count_articles_text [OF assms] by (simp add: one_heading_each_def)
qed

lemma snd_list_tools:
  "snd (get_latest_articles http) =
     bind_err (snd (fetch_from_api http ''/articles/latest'' None)) (\<lambda>articles.
     bind_err (slice10 articles) format_articles)"
  "snd (get_articles_by_tag http tag) =
     bind_err (snd (fetch_from_api http ''/articles'' (Some [(''tag'', JStr tag)]))) (\<lambda>articles.
     bind_err (slice10 articles) format_articles)"
  "snd (get_articles_by_username http username) =
     bind_err (snd (fetch_from_api http ''/articles'' (Some [(''username'', JStr username)])))
       (\<lambda>articles. bind_err (slice10 articles) format_articles)"
  by (simp_all add: get_latest_articles_def get_articles_by_tag_def
      get_articles_by_username_def snd_io_bind)

lemma list_tool_requests:
  "fetch_request ''/articles'' None
     = \<lparr>meth = GET, url = BASE_URL @ ''/articles'', params = None, json_body = None,
        headers = None, timeout = 10\<rparr>"
  "fetch_request ''/articles/latest'' None
     = \<lparr>meth = GET, url = BASE_URL @ ''/articles/latest'', params = None, json_body = None,
        headers = None, timeout = 10\<rparr>"
  "fetch_request ''/articles'' (Some [(''tag'', JStr tag)])
     = \<lparr>meth = GET, url = BASE_URL @ ''/articles'', params = Some [(''tag'', JStr tag)],
        json_body = None, headers = None, timeout = 10\<rparr>"
  "fetch_request ''/articles'' (Some [(''username'', JStr username)])
     = \<lparr>meth = GET, url = BASE_URL @ ''/articles'', params = Some [(''username'', JStr username)],
        json_body = None, headers = None, timeout = 10\<rparr>"
  by (simp_all add: fetch_request_def)

lemma fst_list_tools:
  "fst (get_top_articles http) = [fetch_request ''/articles'' None]"
  "fst (get_latest_articles http) = [fetch_request ''/articles/latest'' None]"
  "fst (get_articles_by_tag http tag) = [fetch_request ''/articles'' (Some [(''tag'', JStr tag)])]"
  "fst (get_articles_by_username http username)
     = [fetch_request ''/articles'' (Some [(''username'', JStr username)])]"
  by (simp_all add: get_top_articles_def get_latest_articles_def get_articles_by_tag_def
      get_articles_by_username_def fst_io_bind split: sum.splits)

lemma list_tool_first_ten:
  assumes "snd (send http (fetch_request path ps)) = Inr (JArr xs)"
  shows "bind_err (snd (fetch_from_api http path ps)) (\<lambda>articles.
           bind_err (slice10 articles) format_articles)
         = format_articles (JArr (take 10 xs))"
  using assms by (simp add: fetch_from_api_def)

text \<open>
  Claim C1, as the code has it. Each of the handlers \<^verbatim>\<open>get_top_articles\<close>,
  \<^verbatim>\<open>get_latest_articles\<close>, \<^verbatim>\<open>get_articles_by_tag\<close> and \<^verbatim>\<open>get_articles_by_username\<close> sends
  one GET, and whenever that is answered with a list the handler returns what
  \<^verbatim>\<open>format_articles\<close> makes of the first ten entries of the list, whatever the entries
  are: the list is cut to its first ten entries before it is formatted, ten at most
  however long it is. When those entries are articles (objects whose \<^verbatim>\<open>user\<close>, when
  present, is an object) none of whose shown texts (title, identifier, author name, date,
  tags, description) has a line after its first that starts with \<^verbatim>\<open>## \<close>, the text
  returned has as many lines starting with \<^verbatim>\<open>## \<close> as there are such entries: one for
  each article.
\<close>

theorem article_lists_one_heading_each:
  "(let top = \<lparr>meth = GET, url = BASE_URL @ ''/articles'', params = None, json_body = None,
                headers = None, timeout = 10\<rparr>;
        latest = \<lparr>meth = GET, url = BASE_URL @ ''/articles/latest'', params = None,
                   json_body = None, headers = None, timeout = 10\<rparr>;
        by_tag = \<lparr>meth = GET, url = BASE_URL @ ''/articles'', params = Some [(''tag'', JStr tag)],
                   json_body = None, headers = None, timeout = 10\<rparr>;
        by_username = \<lparr>meth = GET, url = BASE_URL @ ''/articles'',
                        params = Some [(''username'', JStr username)],
                        json_body = None, headers = None, timeout = 10\<rparr>
    in fst (get_top_articles http) = [top]
       \<and> (snd (send http top) = Inr (JArr xs) \<longrightarrow>
            snd (get_top_articles http) = format_articles (JArr (take 10 xs)))
       \<and> (snd (send http top) = Inr (JArr xs) \<and> list_all no_inner_heading (take 10 xs) \<longrightarrow>
            one_heading_each (take 10 xs) (snd (get_top_articles http)))
       \<and> fst (get_latest_articles http) = [latest]
       \<and> (snd (send http latest) = Inr (JArr xs) \<longrightarrow>
            snd (get_latest_articles http) = format_articles (JArr (take 10 xs)))
       \<and> (snd (send http latest) = Inr (JArr xs) \<and> list_all no_inner_heading (take 10 xs) \<longrightarrow>
            one_heading_each (take 10 xs) (snd (get_latest_articles http)))
       \<and> fst (get_articles_by_tag http tag) = [by_tag]
       \<and> (snd (send http by_tag) = Inr (JArr xs) \<longrightarrow>
            snd (get_articles_by_tag http tag) = format_articles (JArr (take 10 xs)))
       \<and> (snd (send http by_tag) = Inr (JArr xs) \<and> list_all no_inner_heading (take 10 xs) \<longrightarrow>
            one_heading_each (take 10 xs) (snd (get_articles_by_tag http tag)))
       \<and> fst (get_articles_by_username http username) = [by_username]
       \<and> (snd (send http by_username) = Inr (JArr xs) \<longrightarrow>
            snd (get_articles_by_username http username) = format_articles (JArr (take 10 xs)))
       \<and> (snd (send http by_username) = Inr (JArr xs)
            \<and> list_all no_inner_heading (take 10 xs) \<longrightarrow>
            one_heading_each (take 10 xs) (snd (get_articles_by_username http username))))
   \<and> BASE_URL = ''https://dev.to/api''
   \<and> length (take 10 xs) = min 10 (length xs)"
  unfolding Let_def list_tool_requests [symmetric]
  using one_heading_each_first_ten [of xs]
  by (simp add: snd_get_top_articles snd_list_tools fst_list_tools list_tool_first_ten
      min.commute BASE_URL_def)

theorem article_lists_one_heading_each_witness:
  "list_all no_inner_heading
     (take 10 (replicate 12 (JObj [(''title'', JStr ''T''), (''description'', JStr ''one\<newline>two'')])))
   \<and> take 10 (replicate 12 (JObj [(''title'', JStr ''T''), (''description'', JStr ''one\<newline>two'')]))
       = replicate 10 (JObj [(''title'', JStr ''T''), (''description'', JStr ''one\<newline>two'')])
   \<and> snd (send
            (reply (JArr (replicate 12 (JObj [(''title'', JStr ''T''), (''description'', JStr ''one\<newline>two'')]))))
            \<lparr>meth = GET, url = ''https://dev.to/api/articles'', params = None, json_body = None,
              headers = None, timeout = 10\<rparr>)
       = Inr (JArr (replicate 12 (JObj [(''title'', JStr ''T''), (''description'', JStr ''one\<newline>two'')])))
   \<and> snd (send
            (reply (JArr (replicate 12 (JObj [(''title'', JStr ''T''), (''description'', JStr ''one\<newline>two'')]))))
            \<lparr>meth = GET, url = ''https://dev.to/api/articles/latest'', params = None,
              json_body = None, headers = None, timeout = 10\<rparr>)
       = Inr (JArr (replicate 12 (JObj [(''title'', JStr ''T''), (''description'', JStr ''one\<newline>two'')])))
   \<and> snd (send
            (reply (JArr (replicate 12 (JObj [(''title'', JStr ''T''), (''description'', JStr ''one\<newline>two'')]))))
            \<lparr>meth = GET, url = ''https://dev.to/api/articles'',
              params = Some [(''tag'', JStr ''python'')], json_body = None, headers = None,
              timeout = 10\<rparr>)
       = Inr (JArr (replicate 12 (JObj [(''title'', JStr ''T''), (''description'', JStr ''one\<newline>two'')])))
   \<and> snd (send
            (reply (JArr (replicate 12 (JObj [(''title'', JStr ''T''), (''description'', JStr ''one\<newline>two'')]))))
            \<lparr>meth = GET, url = ''https://dev.to/api/articles'',
              params = Some [(''username'', JStr ''ada'')], json_body = None, headers = None,
              timeout = 10\<rparr>)
       = Inr (JArr (replicate 12 (JObj [(''title'', JStr ''T''), (''description'', JStr ''one\<newline>two'')])))
   \<and> snd (get_top_articles
           (reply (JArr (replicate 12 (JObj [(''title'', JStr ''T''), (''description'', JStr ''one\<newline>two'')])))))
       = format_articles
           (JArr (replicate 10 (JObj [(''title'', JStr ''T''), (''description'', JStr ''one\<newline>two'')])))
   \<and> one_heading_each (replicate 10 (JObj [(''title'', JStr ''T''), (''description'', JStr ''one\<newline>two'')]))
        (snd (get_top_articles
           (reply (JArr (replicate 12 (JObj [(''title'', JStr ''T''), (''description'', JStr ''one\<newline>two'')]))))))
   \<and> one_heading_each (replicate 10 (JObj [(''title'', JStr ''T''), (''description'', JStr ''one\<newline>two'')]))
        (snd (get_latest_articles
           (reply (JArr (replicate 12 (JObj [(''title'', JStr ''T''), (''description'', JStr ''one\<newline>two'')]))))))
   \<and> one_heading_each (replicate 10 (JObj [(''title'', JStr ''T''), (''description'', JStr ''one\<newline>two'')]))
        (snd (get_articles_by_tag
           (reply (JArr (replicate 12 (JObj [(''title'', JStr ''T''), (''description'', JStr ''one\<newline>two'')]))))
           ''python''))
   \<and> one_heading_each (replicate 10 (JObj [(''title'', JStr ''T''), (''description'', JStr ''one\<newline>two'')]))
        (snd (get_articles_by_username
           (reply (JArr (replicate 12 (JObj [(''title'', JStr ''T''), (''description'', JStr ''one\<newline>two'')]))))
           ''ada''))
   \<and> fst (get_articles_by_tag
           (reply (JArr (replicate 12 (JObj [(''title'', JStr ''T''), (''description'', JStr ''one\<newline>two'')]))))
           ''python'')
       = [\<lparr>meth = GET, url = ''https://dev.to/api/articles'',
            params = Some [(''tag'', JStr ''python'')], json_body = None, headers = None,
            timeout = 10\<rparr>]"
proof -
  have one: "no_inner_heading (JObj [(''title'', JStr ''T''), (''description'', JStr ''one\<newline>two'')])"
    by code_simp
  have ten: "take 10 (replicate 12 (JObj [(''title'', JStr ''T''), (''description'', JStr ''one\<newline>two'')]))
      = replicate 10 (JObj [(''title'', JStr ''T''), (''description'', JStr ''one\<newline>two'')])"
    by simp
  have clean: "list_all no_inner_heading
      (take 10 (replicate 12 (JObj [(''title'', JStr ''T''), (''description'', JStr ''one\<newline>two'')])))"
    unfolding ten using one by (simp add: list_all_iff)
  have answered: "snd (send
      (reply (JArr (replicate 12 (JObj [(''title'', JStr ''T''), (''description'', JStr ''one\<newline>two'')]))))
      r)
      = Inr (JArr (replicate 12 (JObj [(''title'', JStr ''T''), (''description'', JStr ''one\<newline>two'')])))"
    for r
    by simp
  have base: "BASE_URL @ path = ''https://dev.to/api'' @ path" for path
    by (simp add: BASE_URL_def)
  show ?thesis
    using clean answered
      article_lists_one_heading_each
        [of "''python''" "''ada''"
          "reply (JArr (replicate 12 (JObj [(''title'', JStr ''T''), (''description'', JStr ''one\<newline>two'')])))"
          "replicate 12 (JObj [(''title'', JStr ''T''), (''description'', JStr ''one\<newline>two'')])"]
    unfolding Let_def ten base by auto
qed

theorem article_list_injected_heading:
  "snd (fetch_from_api (reply (JArr [JObj [(''title'', JStr ''a\<newline>## b'')]])) ''/articles'' None)
     = Inr (JArr [JObj [(''title'', JStr ''a\<newline>## b'')]])
   \<and> length [JObj [(''title'', JStr ''a\<newline>## b'')]] = 1
   \<and> snd (get_top_articles (reply (JArr [JObj [(''title'', JStr ''a\<newline>## b'')]])))
     = Inr ''# Dev.to Articles\<newline>\<newline>## a\<newline>## b\<newline>ID: \<newline>Author: Unknown Author\<newline>Published: Unknown date\<newline>Tags: \<newline>Description: No description available.\<newline>\<newline>''
   \<and> heading_count ''# Dev.to Articles\<newline>\<newline>## a\<newline>## b\<newline>ID: \<newline>Author: Unknown Author\<newline>Published: Unknown date\<newline>Tags: \<newline>Description: No description available.\<newline>\<newline>'' = 2"
proof -
  have "heading_count ''# Dev.to Articles\<newline>\<newline>## a\<newline>## b\<newline>ID: \<newline>Author: Unknown Author\<newline>Published: Unknown date\<newline>Tags: \<newline>Description: No description available.\<newline>\<newline>'' = 2"
    by code_simp
  then show ?thesis
    by (simp add: snd_get_top_articles fetch_from_api_def format_articles_def
        format_article_block_def)
qed

section \<open>Sections and optional lines of a profile\<close>

lemma line_of_unlines:
  assumes "l \<in> set ls" and "one_line l"
  shows "l \<in> set (split_lines (unlines ls))"
proof -
  have "split_lines (unlines ls) = concat (map split_lines ls) @ [[]]"
    using split_lines_unlines [of ls "[]"] by simp
  moreover have "l \<in> set (split_lines l)"
    using assms(2) by (simp add: split_lines_one_line)
  ultimately show ?thesis
    using assms(1) by auto
qed

lemma has_line_unlines:
  assumes "label \<noteq> []"
  shows "has_line label (unlines ls)
     \<longleftrightarrow> list_ex (\<lambda>s. prefix label (hd (split_lines s))
                       \<or> filter (prefix label) (continuation_lines s) \<noteq> []) ls"
proof -
  have "split_lines (unlines ls) = concat (map split_lines ls) @ [[]]"
    using split_lines_unlines [of ls "[]"] by simp
  then have "has_line label (unlines ls) \<longleftrightarrow> list_ex (\<lambda>s. list_ex (prefix label) (split_lines s)) ls"
    using assms by (auto simp: has_line_def list_ex_iff)
  then show ?thesis
    by (simp add: list_ex_split_lines)
qed

lemma has_line_of_unlines:
  assumes "s \<in> set ls" and "prefix label (hd (split_lines s))" and "label \<noteq> []"
  shows "has_line label (unlines ls)"
  using assms by (auto simp: has_line_unlines list_ex_iff)

lemma profile_lines_inside:
  assumes "label_not_inside L kvs"
    and "last L \<noteq> CHR '' ''" and "CHR ''('' \<notin> set L" and "last L \<noteq> CHR '')''"
  shows "list_all (\<lambda>s. filter (prefix L) (continuation_lines s) = []) (profile_lines kvs)"
proof -
  from assms(1) have texts:
    "no_line_inside L (shown kvs ''name'' ''Unknown'')"
    "no_line_inside L (shown kvs ''username'' ''Unknown'')"
    "no_line_inside L (shown kvs ''summary'' ''No bio available.'')"
    "no_line_inside L (shown kvs ''location'' [])"
    "no_line_inside L (shown kvs ''joined_at'' [])"
    "no_line_inside L (shown kvs ''twitter_username'' [])"
    "no_line_inside L (shown kvs ''github_username'' [])"
    "no_line_inside L (shown kvs ''website_url'' [])"
    by (simp_all add: label_not_inside_def profile_texts_def)
  have first: "no_line_inside L
      (shown kvs ''name'' ''Unknown'' @ '' (@'' @ shown kvs ''username'' ''Unknown'' @ '')'')"
    using texts(1,2) assms(2-4) by (rule no_line_inside_name_line)
  show ?thesis
    using first texts(3-8)
    by (simp add: profile_lines_def optional_line_def no_line_inside_def continuation_lines_Cons)
qed

lemma has_line_profile:
  assumes "label_not_inside L kvs" and "L \<noteq> []"
    and "last L \<noteq> CHR '' ''" and "CHR ''('' \<notin> set L" and "last L \<noteq> CHR '')''"
  shows "has_line L (profile_text kvs)
     \<longleftrightarrow> list_ex (\<lambda>s. prefix L (hd (split_lines s))) (profile_lines kvs)"
  using profile_lines_inside [OF assms(1,3,4,5)]
  by (auto simp: profile_text_def has_line_unlines [OF assms(2)] list_ex_iff list_all_iff)

text \<open>
  Claim C10, as the code has it. For every non-empty user object the text of
  \<^verbatim>\<open>format_user_profile\<close> has the lines \<^verbatim>\<open>## Details\<close> and \<^verbatim>\<open>## Links\<close>, whatever the
  optional fields are, and a line starting with \<^verbatim>\<open>Location:\<close>, \<^verbatim>\<open>Member since:\<close>,
  \<^verbatim>\<open>Twitter:\<close>, \<^verbatim>\<open>GitHub:\<close> or \<^verbatim>\<open>Website:\<close> whenever the field of that label is present
  with a truthy value. When none of the texts the profile shows has a line after its
  first that starts with the label, such a line is there only then: the label starts a
  line of the output if and only if its field is present with a truthy value.
\<close>

theorem user_profile_sections_and_lines:
  assumes "kvs \<noteq> []"
  shows "format_user_profile (JObj kvs) = Inr (profile_text kvs)
         \<and> ''## Details'' \<in> set (split_lines (profile_text kvs))
         \<and> ''## Links'' \<in> set (split_lines (profile_text kvs))
         \<and> (field_truthy kvs ''location'' \<longrightarrow> has_line ''Location:'' (profile_text kvs))
         \<and> (field_truthy kvs ''joined_at'' \<longrightarrow> has_line ''Member since:'' (profile_text kvs))
         \<and> (field_truthy kvs ''twitter_username'' \<longrightarrow> has_line ''Twitter:'' (profile_text kvs))
         \<and> (field_truthy kvs ''github_username'' \<longrightarrow> has_line ''GitHub:'' (profile_text kvs))
         \<and> (field_truthy kvs ''website_url'' \<longrightarrow> has_line ''Website:'' (profile_text kvs))
         \<and> (label_not_inside ''Location:'' kvs \<longrightarrow>
              (has_line ''Location:'' (profile_text kvs) \<longleftrightarrow> field_truthy kvs ''location''))
         \<and> (label_not_inside ''Member since:'' kvs \<longrightarrow>
              (has_line ''Member since:'' (profile_text kvs) \<longleftrightarrow> field_truthy kvs ''joined_at''))
         \<and> (label_not_inside ''Twitter:'' kvs \<longrightarrow>
              (has_line ''Twitter:'' (profile_text kvs) \<longleftrightarrow> field_truthy kvs ''twitter_username''))
         \<and> (label_not_inside ''GitHub:'' kvs \<longrightarrow>
              (has_line ''GitHub:'' (profile_text kvs) \<longleftrightarrow> field_truthy kvs ''github_username''))
         \<and> (label_not_inside ''Website:'' kvs \<longrightarrow>
              (has_line ''Website:'' (profile_text kvs) \<longleftrightarrow> field_truthy kvs ''website_url''))"
proof (intro conjI impI)
  from assms show "format_user_profile (JObj kvs) = Inr (profile_text kvs)"
    by (rule format_user_profile_ok)
  show "''## Details'' \<in> set (split_lines (profile_text kvs))"
    unfolding profile_text_def by (rule line_of_unlines) (simp_all add: profile_lines_def one_line_def)
  show "''## Links'' \<in> set (split_lines (profile_text kvs))"
    unfolding profile_text_def by (rule line_of_unlines) (simp_all add: profile_lines_def one_line_def)
next
  assume "field_truthy kvs ''location''"
  then have "''Location: '' @ shown kvs ''location'' [] \<in> set (profile_lines kvs)"
    by (simp add: profile_lines_def optional_line_def)
  then show "has_line ''Location:'' (profile_text kvs)"
    unfolding profile_text_def
    by (rule has_line_of_unlines) (simp_all add: hd_split_lines_Cons del: split_lines.simps(2))
next
  assume "field_truthy kvs ''joined_at''"
  then have "''Member since: '' @ shown kvs ''joined_at'' [] \<in> set (profile_lines kvs)"
    by (simp add: profile_lines_def optional_line_def)
  then show "has_line ''Member since:'' (profile_text kvs)"
    unfolding profile_text_def
    by (rule has_line_of_unlines) (simp_all add: hd_split_lines_Cons del: split_lines.simps(2))
next
  assume "field_truthy kvs ''twitter_username''"
  then have "''Twitter: @'' @ shown kvs ''twitter_username'' [] \<in> set (profile_lines kvs)"
    by (simp add: profile_lines_def optional_line_def)
  then show "has_line ''Twitter:'' (profile_text kvs)"
    unfolding profile_text_def
    by (rule has_line_of_unlines) (simp_all add: hd_split_lines_Cons del: split_lines.simps(2))
next
  assume "field_truthy kvs ''github_username''"
  then have "''GitHub: '' @ shown kvs ''github_username'' [] \<in> set (profile_lines kvs)"
    by (simp add: profile_lines_def optional_line_def)
  then show "has_line ''GitHub:'' (profile_text kvs)"
    unfolding profile_text_def
    by (rule has_line_of_unlines) (simp_all add: hd_split_lines_Cons del: split_lines.simps(2))
next
  assume "field_truthy kvs ''website_url''"
  then have "''Website: '' @ shown kvs ''website_url'' [] \<in> set (profile_lines kvs)"
    by (simp add: profile_lines_def optional_line_def)
  then show "has_line ''Website:'' (profile_text kvs)"
    unfolding profile_text_def
    by (rule has_line_of_unlines) (simp_all add: hd_split_lines_Cons del: split_lines.simps(2))
next
  assume "label_not_inside ''Location:'' kvs"
  then show "has_line ''Location:'' (profile_text kvs) \<longleftrightarrow> field_truthy kvs ''location''"
    by (simp add: has_line_profile profile_lines_def optional_line_def hd_split_lines_Cons
        del: split_lines.simps(2))
next
  assume "label_not_inside ''Member since:'' kvs"
  then show "has_line ''Member since:'' (profile_text kvs) \<longleftrightarrow> field_truthy kvs ''joined_at''"
    by (simp add: has_line_profile profile_lines_def optional_line_def hd_split_lines_Cons
        del: split_lines.simps(2))
next
  assume "label_not_inside ''Twitter:'' kvs"
  then show "has_line ''Twitter:'' (profile_text kvs) \<longleftrightarrow> field_truthy kvs ''twitter_username''"
    by (simp add: has_line_profile profile_lines_def optional_line_def hd_split_lines_Cons
        del: split_lines.simps(2))
next
  assume "label_not_inside ''GitHub:'' kvs"
  then show "has_line ''GitHub:'' (profile_text kvs) \<longleftrightarrow> field_truthy kvs ''github_username''"
    by (simp add: has_line_profile profile_lines_def optional_line_def hd_split_lines_Cons
        del: split_lines.simps(2))
next
  assume "label_not_inside ''Website:'' kvs"
  then show "has_line ''Website:'' (profile_text kvs) \<longleftrightarrow> field_truthy kvs ''website_url''"
    by (simp add: has_line_profile profile_lines_def optional_line_def hd_split_lines_Cons
        del: split_lines.simps(2))
qed
theorem user_profile_sections_and_lines_witness:
  "sample_user \<noteq> []
   \<and> label_not_inside ''Location:'' sample_user
   \<and> label_not_inside ''Member since:'' sample_user
   \<and> label_not_inside ''Twitter:'' sample_user
   \<and> label_not_inside ''GitHub:'' sample_user
   \<and> label_not_inside ''Website:'' sample_user
   \<and> field_truthy sample_user ''location''
   \<and> \<not> field_truthy sample_user ''joined_at''
   \<and> \<not> field_truthy sample_user ''twitter_username''
   \<and> \<not> field_truthy sample_user ''github_username''
   \<and> \<not> field_truthy sample_user ''website_url''
   \<and> format_user_profile (JObj sample_user)
     = Inr ''# Ada (@Unknown)\<newline>\<newline>Bio: one\<newline>two\<newline>\<newline>## Details\<newline>Location: London\<newline>\<newline>## Links\<newline>''
   \<and> has_line ''Location:'' ''# Ada (@Unknown)\<newline>\<newline>Bio: one\<newline>two\<newline>\<newline>## Details\<newline>Location: London\<newline>\<newline>## Links\<newline>''
   \<and> \<not> has_line ''Member since:'' ''# Ada (@Unknown)\<newline>\<newline>Bio: one\<newline>two\<newline>\<newline>## Details\<newline>Location: London\<newline>\<newline>## Links\<newline>''
   \<and> \<not> has_line ''Twitter:'' ''# Ada (@Unknown)\<newline>\<newline>Bio: one\<newline>two\<newline>\<newline>## Details\<newline>Location: London\<newline>\<newline>## Links\<newline>''
   \<and> \<not> has_line ''GitHub:'' ''# Ada (@Unknown)\<newline>\<newline>Bio: one\<newline>two\<newline>\<newline>## Details\<newline>Location: London\<newline>\<newline>## Links\<newline>''
   \<and> \<not> has_line ''Website:'' ''# Ada (@Unknown)\<newline>\<newline>Bio: one\<newline>two\<newline>\<newline>## Details\<newline>Location: London\<newline>\<newline>## Links\<newline>''
   \<and> full_user \<noteq> []
   \<and> field_truthy full_user ''location''
   \<and> field_truthy full_user ''joined_at''
   \<and> field_truthy full_user ''twitter_username''
   \<and> field_truthy full_user ''github_username''
   \<and> field_truthy full_user ''website_url''
   \<and> format_user_profile (JObj full_user)
     = Inr ''# Unknown (@ada)\<newline>\<newline>Bio: No bio available.\<newline>\<newline>## Details\<newline>Location: London\<newline>Member since: Jan 1, 2020\<newline>\<newline>## Links\<newline>Twitter: @ada_t\<newline>GitHub: ada_g\<newline>Website: https://ada.dev\<newline>''
   \<and> has_line ''Location:'' ''# Unknown (@ada)\<newline>\<newline>Bio: No bio available.\<newline>\<newline>## Details\<newline>Location: London\<newline>Member since: Jan 1, 2020\<newline>\<newline>## Links\<newline>Twitter: @ada_t\<newline>GitHub: ada_g\<newline>Website: https://ada.dev\<newline>''
   \<and> has_line ''Member since:'' ''# Unknown (@ada)\<newline>\<newline>Bio: No bio available.\<newline>\<newline>## Details\<newline>Location: London\<newline>Member since: Jan 1, 2020\<newline>\<newline>## Links\<newline>Twitter: @ada_t\<newline>GitHub: ada_g\<newline>Website: https://ada.dev\<newline>''
   \<and> has_line ''Twitter:'' ''# Unknown (@ada)\<newline>\<newline>Bio: No bio available.\<newline>\<newline>## Details\<newline>Location: London\<newline>Member since: Jan 1, 2020\<newline>\<newline>## Links\<newline>Twitter: @ada_t\<newline>GitHub: ada_g\<newline>Website: https://ada.dev\<newline>''
   \<and> has_line ''GitHub:'' ''# Unknown (@ada)\<newline>\<newline>Bio: No bio available.\<newline>\<newline>## Details\<newline>Location: London\<newline>Member since: Jan 1, 2020\<newline>\<newline>## Links\<newline>Twitter: @ada_t\<newline>GitHub: ada_g\<newline>Website: https://ada.dev\<newline>''
   \<and> has_line ''Website:'' ''# Unknown (@ada)\<newline>\<newline>Bio: No bio available.\<newline>\<newline>## Details\<newline>Location: London\<newline>Member since: Jan 1, 2020\<newline>\<newline>## Links\<newline>Twitter: @ada_t\<newline>GitHub: ada_g\<newline>Website: https://ada.dev\<newline>''"
proof -
  have some: "sample_user \<noteq> []"
    by (simp add: sample_user_def)
  have inside: "label_not_inside ''Location:'' sample_user"
    "label_not_inside ''Member since:'' sample_user"
    "label_not_inside ''Twitter:'' sample_user"
    "label_not_inside ''GitHub:'' sample_user"
    "label_not_inside ''Website:'' sample_user"
    by code_simp+
  have fields: "field_truthy sample_user ''location''"
    "\<not> field_truthy sample_user ''joined_at''"
    "\<not> field_truthy sample_user ''twitter_username''"
    "\<not> field_truthy sample_user ''github_username''"
    "\<not> field_truthy sample_user ''website_url''"
    by (simp_all add: sample_user_def field_truthy_def)
  have rendered: "profile_text sample_user
      = ''# Ada (@Unknown)\<newline>\<newline>Bio: one\<newline>two\<newline>\<newline>## Details\<newline>Location: London\<newline>\<newline>## Links\<newline>''"
    by (simp add: sample_user_def profile_text_def profile_lines_def optional_line_def
        field_truthy_def shown_def)
  have sparse: "format_user_profile (JObj sample_user)
      = Inr ''# Ada (@Unknown)\<newline>\<newline>Bio: one\<newline>two\<newline>\<newline>## Details\<newline>Location: London\<newline>\<newline>## Links\<newline>''
    \<and> has_line ''Location:'' ''# Ada (@Unknown)\<newline>\<newline>Bio: one\<newline>two\<newline>\<newline>## Details\<newline>Location: London\<newline>\<newline>## Links\<newline>''
    \<and> \<not> has_line ''Member since:'' ''# Ada (@Unknown)\<newline>\<newline>Bio: one\<newline>two\<newline>\<newline>## Details\<newline>Location: London\<newline>\<newline>## Links\<newline>''
    \<and> \<not> has_line ''Twitter:'' ''# Ada (@Unknown)\<newline>\<newline>Bio: one\<newline>two\<newline>\<newline>## Details\<newline>Location: London\<newline>\<newline>## Links\<newline>''
    \<and> \<not> has_line ''GitHub:'' ''# Ada (@Unknown)\<newline>\<newline>Bio: one\<newline>two\<newline>\<newline>## Details\<newline>Location: London\<newline>\<newline>## Links\<newline>''
    \<and> \<not> has_line ''Website:'' ''# Ada (@Unknown)\<newline>\<newline>Bio: one\<newline>two\<newline>\<newline>## Details\<newline>Location: London\<newline>\<newline>## Links\<newline>''"
    using inside fields user_profile_sections_and_lines [OF some]
    unfolding rendered by simp
  have every: "full_user \<noteq> []"
    by (simp add: full_user_def)
  have all_fields: "field_truthy full_user ''location''"
    "field_truthy full_user ''joined_at''"
    "field_truthy full_user ''twitter_username''"
    "field_truthy full_user ''github_username''"
    "field_truthy full_user ''website_url''"
    by (simp_all add: full_user_def field_truthy_def)
  have rendered_full: "profile_text full_user
      = ''# Unknown (@ada)\<newline>\<newline>Bio: No bio available.\<newline>\<newline>## Details\<newline>Location: London\<newline>Member since: Jan 1, 2020\<newline>\<newline>## Links\<newline>Twitter: @ada_t\<newline>GitHub: ada_g\<newline>Website: https://ada.dev\<newline>''"
    by (simp add: full_user_def profile_text_def profile_lines_def optional_line_def
        field_truthy_def shown_def)
  have full: "format_user_profile (JObj full_user)
      = Inr ''# Unknown (@ada)\<newline>\<newline>Bio: No bio available.\<newline>\<newline>## Details\<newline>Location: London\<newline>Member since: Jan 1, 2020\<newline>\<newline>## Links\<newline>Twitter: @ada_t\<newline>GitHub: ada_g\<newline>Website: https://ada.dev\<newline>''
    \<and> has_line ''Location:'' ''# Unknown (@ada)\<newline>\<newline>Bio: No bio available.\<newline>\<newline>## Details\<newline>Location: London\<newline>Member since: Jan 1, 2020\<newline>\<newline>## Links\<newline>Twitter: @ada_t\<newline>GitHub: ada_g\<newline>Website: https://ada.dev\<newline>''
    \<and> has_line ''Member since:'' ''# Unknown (@ada)\<newline>\<newline>Bio: No bio available.\<newline>\<newline>## Details\<newline>Location: London\<newline>Member since: Jan 1, 2020\<newline>\<newline>## Links\<newline>Twitter: @ada_t\<newline>GitHub: ada_g\<newline>Website: https://ada.dev\<newline>''
    \<and> has_line ''Twitter:'' ''# Unknown (@ada)\<newline>\<newline>Bio: No bio available.\<newline>\<newline>## Details\<newline>Location: London\<newline>Member since: Jan 1, 2020\<newline>\<newline>## Links\<newline>Twitter: @ada_t\<newline>GitHub: ada_g\<newline>Website: https://ada.dev\<newline>''
    \<and> has_line ''GitHub:'' ''# Unknown (@ada)\<newline>\<newline>Bio: No bio available.\<newline>\<newline>## Details\<newline>Location: London\<newline>Member since: Jan 1, 2020\<newline>\<newline>## Links\<newline>Twitter: @ada_t\<newline>GitHub: ada_g\<newline>Website: https://ada.dev\<newline>''
    \<and> has_line ''Website:'' ''# Unknown (@ada)\<newline>\<newline>Bio: No bio available.\<newline>\<newline>## Details\<newline>Location: London\<newline>Member since: Jan 1, 2020\<newline>\<newline>## Links\<newline>Twitter: @ada_t\<newline>GitHub: ada_g\<newline>Website: https://ada.dev\<newline>''"
    using all_fields user_profile_sections_and_lines [OF every]
    unfolding rendered_full by simp
  show ?thesis
    using some inside fields sparse every all_fields full by simp
qed

theorem user_profile_injected_line:
  "format_user_profile (JObj [(''summary'', JStr ''x\<newline>Location: y'')])
     = Inr ''# Unknown (@Unknown)\<newline>\<newline>Bio: x\<newline>Location: y\<newline>\<newline>## Details\<newline>\<newline>## Links\<newline>''
   \<and> has_line ''Location:'' ''# Unknown (@Unknown)\<newline>\<newline>Bio: x\<newline>Location: y\<newline>\<newline>## Details\<newline>\<newline>## Links\<newline>''
   \<and> \<not> field_truthy [(''summary'', JStr ''x\<newline>Location: y'')] ''location''"
proof -
  have "has_line ''Location:'' ''# Unknown (@Unknown)\<newline>\<newline>Bio: x\<newline>Location: y\<newline>\<newline>## Details\<newline>\<newline>## Links\<newline>''"
    by code_simp
  then show ?thesis
    by (simp add: format_user_profile_def opt_line_def field_truthy_def)
qed

end
